theory Spec2Isabelle
  imports Complex_Main "HOL-Library.Monad_Syntax"
begin

section \<open>JavaScript values\<close>

text \<open>
  A JavaScript string is a sequence of UTF-16 code units; a code unit is modelled by its
  number. \<open>ustr\<close> turns an ASCII literal into such a sequence, so that the string
  literals of the source can be written as they are. The three non-ASCII literals of the
  source are given by their code units.
\<close>

type_synonym jsstring = "nat list"

definition ustr :: "string \<Rightarrow> jsstring" where
  "ustr s = map of_char s"

text \<open>A JavaScript number: a double is NaN, an infinity, or a finite (rational) value.\<close>

datatype jsnum = NaN | PosInf | NegInf | Fin rat

text \<open>
  The values \<open>response.json()\<close> can give, with \<open>undefined\<close>, which a missing property
  reads as, and the built-in function \<open>String.prototype.trim\<close>, which a read of \<open>trim\<close> on
  a string gives. An object is the list of its own properties.
\<close>

datatype jsval =
    JUndefined
  | JNull
  | JBool bool
  | JNum jsnum
  | JStr jsstring
  | JArr "jsval list"
  | JObj "(jsstring \<times> jsval) list"
  | JTrimFn

text \<open>Truthiness (ToBoolean): what \<open>x ? a : b\<close>, \<open>x || y\<close>, \<open>x && y\<close> and \<open>!x\<close> test.\<close>

fun truthy :: "jsval \<Rightarrow> bool" where
  "truthy JUndefined = False"
| "truthy JNull = False"
| "truthy (JBool b) = b"
| "truthy (JNum n) = (n \<noteq> NaN \<and> n \<noteq> Fin 0)"
| "truthy (JStr s) = (s \<noteq> [])"
| "truthy (JArr xs) = True"
| "truthy (JObj fs) = True"
| "truthy JTrimFn = True"

text \<open>\<open>a || b\<close> on values that are already computed.\<close>

definition js_or :: "jsval \<Rightarrow> jsval \<Rightarrow> jsval" where
  "js_or a b = (if truthy a then a else b)"

text \<open>\<open>a ?? b\<close>: \<open>b\<close> when \<open>a\<close> is \<open>null\<close> or \<open>undefined\<close>.\<close>

definition nullish :: "jsval \<Rightarrow> bool" where
  "nullish v = (v = JUndefined \<or> v = JNull)"

definition js_coalesce :: "jsval \<Rightarrow> jsval \<Rightarrow> jsval" where
  "js_coalesce a b = (if nullish a then b else a)"

text \<open>
  Reading a named property \<open>v.k\<close>. On \<open>null\<close> and \<open>undefined\<close> the read throws a
  TypeError (\<open>None\<close>). An object gives its own property or \<open>undefined\<close>. An array and a
  string have \<open>length\<close>, and a string inherits the function \<open>trim\<close>; that function has
  the \<open>length\<close> 0. Of the names the source reads (\<open>id\<close>, \<open>addressLine1\<close>,
  \<open>propertyType\<close>, \<open>city\<close>, \<open>state\<close>, \<open>price\<close>, \<open>bedrooms\<close>, \<open>bathrooms\<close>,
  \<open>squareFootage\<close>, \<open>build\<close>, \<open>make\<close>, \<open>model\<close>, \<open>year\<close>, \<open>trim\<close>, \<open>miles\<close>,
  \<open>body_type\<close>, \<open>transmission\<close>, \<open>exterior_color\<close>, \<open>color\<close>, \<open>media\<close>,
  \<open>photo_links\<close>, \<open>listings\<close>, \<open>reply\<close>, \<open>length\<close>, \<open>bodyType\<close>, \<open>source\<close>) no
  prototype defines another, so every other read gives \<open>undefined\<close>.
\<close>

fun get :: "jsval \<Rightarrow> jsstring \<Rightarrow> jsval option" where
  "get JUndefined k = None"
| "get JNull k = None"
| "get (JObj fs) k = Some (case map_of fs k of None \<Rightarrow> JUndefined | Some v \<Rightarrow> v)"
| "get (JArr xs) k =
     Some (if k = ustr ''length'' then JNum (Fin (of_nat (length xs))) else JUndefined)"
| "get (JStr s) k =
     Some (if k = ustr ''length'' then JNum (Fin (of_nat (length s)))
           else if k = ustr ''trim'' then JTrimFn
           else JUndefined)"
| "get (JBool b) k = Some JUndefined"
| "get (JNum n) k = Some JUndefined"
| "get JTrimFn k = Some (if k = ustr ''length'' then JNum (Fin 0) else JUndefined)"

text \<open>Optional chaining \<open>v?.k\<close>: \<open>undefined\<close> on \<open>null\<close> and \<open>undefined\<close>, never a throw.\<close>

definition opt_get :: "jsval \<Rightarrow> jsstring \<Rightarrow> jsval" where
  "opt_get v k = (case get v k of None \<Rightarrow> JUndefined | Some w \<Rightarrow> w)"

text \<open>\<open>v?.[0]\<close>: the first element of an array, the first code unit of a string, an
  object's property \<open>"0"\<close>.\<close>

fun opt_index0 :: "jsval \<Rightarrow> jsval" where
  "opt_index0 (JArr xs) = (case xs of [] \<Rightarrow> JUndefined | x # _ \<Rightarrow> x)"
| "opt_index0 (JStr s) = (case s of [] \<Rightarrow> JUndefined | c # _ \<Rightarrow> JStr [c])"
| "opt_index0 (JObj fs) = (case map_of fs (ustr ''0'') of None \<Rightarrow> JUndefined | Some v \<Rightarrow> v)"
| "opt_index0 v = JUndefined"

text \<open>
  What the host provides and the repository does not define: the conversions between
  numbers and strings (floating point), the locale's number format, Unicode lower-casing,
  the text a built-in function converts to (\<open>String(String.prototype.trim)\<close>, in most
  hosts \<open>function trim() { [native code] }\<close>), and the URL of the bundled demo image
  (\<open>@/assets/IMG_6728.jpg\<close>). They are parameters of the model.
\<close>

record js_env =
  numberToString :: "jsnum \<Rightarrow> jsstring"
  stringToNumber :: "jsstring \<Rightarrow> jsnum"
  toLocaleString :: "jsnum \<Rightarrow> jsstring"
  toLowerCase :: "jsstring \<Rightarrow> jsstring"
  trimSource :: jsstring
  demoCarImg :: jsstring

text \<open>The decimal digits of a non-negative integer (an array index, a time stamp).\<close>

fun decimal :: "nat \<Rightarrow> jsstring" where
  "decimal n = (if n < 10 then [48 + n] else decimal (n div 10) @ [48 + n mod 10])"

declare decimal.simps [simp del]

text \<open>
  ToString, as a template literal, \<open>String(v)\<close> and \<open>"..." + v\<close> apply it. An object
  parsed from JSON has no callable property, so an own \<open>toString\<close> makes the conversion
  throw; otherwise the object reads \<open>[object Object]\<close>. An array joins its elements with
  commas, \<open>null\<close> and \<open>undefined\<close> elements reading as the empty string. A built-in
  function reads as the host prints it.
\<close>

fun toStr :: "js_env \<Rightarrow> jsval \<Rightarrow> jsstring option"
  and joinStr :: "js_env \<Rightarrow> jsval list \<Rightarrow> jsstring option" where
  "toStr E JUndefined = Some (ustr ''undefined'')"
| "toStr E JNull = Some (ustr ''null'')"
| "toStr E (JBool b) = Some (if b then ustr ''true'' else ustr ''false'')"
| "toStr E (JNum n) = Some (numberToString E n)"
| "toStr E (JStr s) = Some s"
| "toStr E (JArr xs) = joinStr E xs"
| "toStr E (JObj fs) =
     (if map_of fs (ustr ''toString'') \<noteq> None then None else Some (ustr ''[object Object]''))"
| "toStr E JTrimFn = Some (trimSource E)"
| "joinStr E [] = Some []"
| "joinStr E (x # xs) =
     (case (if nullish x then Some [] else toStr E x) of
        None \<Rightarrow> None
      | Some a \<Rightarrow>
          (if xs = [] then Some a
           else (case joinStr E xs of None \<Rightarrow> None | Some b \<Rightarrow> Some (a @ ustr '','' @ b))))"

text \<open>ToNumber, as \<open>Number(v)\<close> and the comparison \<open>v > 0\<close> apply it.\<close>

fun toNumber :: "js_env \<Rightarrow> jsval \<Rightarrow> jsnum option" where
  "toNumber E JUndefined = Some NaN"
| "toNumber E JNull = Some (Fin 0)"
| "toNumber E (JBool b) = Some (Fin (if b then 1 else 0))"
| "toNumber E (JNum n) = Some n"
| "toNumber E (JStr s) = Some (stringToNumber E s)"
| "toNumber E v = map_option (stringToNumber E) (toStr E v)"

text \<open>\<open>n > 0\<close> on numbers.\<close>

fun num_pos :: "jsnum \<Rightarrow> bool" where
  "num_pos (Fin r) = (0 < r)"
| "num_pos PosInf = True"
| "num_pos NegInf = False"
| "num_pos NaN = False"

text \<open>\<open>Number(v).toLocaleString()\<close>.\<close>

definition localeNumber :: "js_env \<Rightarrow> jsval \<Rightarrow> jsstring option" where
  "localeNumber E v = map_option (toLocaleString E) (toNumber E v)"

text \<open>
  \<open>s.trim()\<close> removes white space and line terminators from both ends:
  TAB, LF, VT, FF, CR, SPACE, NBSP, U+1680, U+2000..U+200A, U+2028, U+2029, U+202F,
  U+205F, U+3000 and U+FEFF.
\<close>

definition is_ws :: "nat \<Rightarrow> bool" where
  "is_ws c = (c \<in> {9, 10, 11, 12, 13, 32, 160, 5760, 8232, 8233, 8239, 8287, 12288, 65279}
              \<or> (8192 \<le> c \<and> c \<le> 8202))"

definition trim :: "jsstring \<Rightarrow> jsstring" where
  "trim s = rev (dropWhile is_ws (rev (dropWhile is_ws s)))"

text \<open>\<open>s.startsWith(q)\<close> and \<open>s.includes(q)\<close>: \<open>q\<close> occurs in \<open>s\<close> at some position.\<close>

fun startsWith :: "jsstring \<Rightarrow> jsstring \<Rightarrow> bool" where
  "startsWith s [] = True"
| "startsWith [] (d # q) = False"
| "startsWith (c # s) (d # q) = (c = d \<and> startsWith s q)"

fun js_includes :: "jsstring \<Rightarrow> jsstring \<Rightarrow> bool" where
  "js_includes [] q = (q = [])"
| "js_includes (c # s) q = (startsWith (c # s) q \<or> js_includes s q)"

text \<open>\<open>s.split(" ")[0]\<close>: the part of \<open>s\<close> before its first space.\<close>

definition firstWord :: "jsstring \<Rightarrow> jsstring" where
  "firstWord s = takeWhile (\<lambda>c. c \<noteq> 32) s"

section \<open>The canonical listings (Listings.tsx)\<close>

datatype ListingType = property | car

text \<open>
  \<open>PropertyListing\<close> and \<open>CarListing\<close>. The fields the normalizers build with a template
  literal or \<open>String(...)\<close> are strings; the fields they copy from the upstream record
  hold whatever value the record has. (\<open>listing_id\<close> is the field \<open>id\<close>, \<open>image_url\<close>
  the field \<open>image\<close> and \<open>car_make\<close> the field \<open>make\<close>.)
\<close>

record listing_common =
  listing_id :: jsval
  title :: jsstring
  price :: jsstring
  image_url :: jsval
  condition :: int

record PropertyListing = listing_common +
  location :: jsstring
  bedrooms :: jsval
  bathrooms :: jsval
  sqft :: jsstring

record CarListing = listing_common +
  details :: jsstring
  mileage :: jsstring
  year :: jsstring
  color :: jsval
  car_make :: jsval
  bodyType :: jsval

definition ITEMS_PER_PAGE :: nat where
  "ITEMS_PER_PAGE = 9"

definition propertyImages :: "jsstring list" where
  "propertyImages =
    [ustr ''https://images.unsplash.com/photo-1545324418-cc1a3fa10c00?w=600&h=400&fit=crop'',
     ustr ''https://images.unsplash.com/photo-1568605114967-8130f3a36994?w=600&h=400&fit=crop'',
     ustr ''https://images.unsplash.com/photo-1512917774080-9991f1c4c750?w=600&h=400&fit=crop'',
     ustr ''https://images.unsplash.com/photo-1522708323590-d24dbb6b0267?w=600&h=400&fit=crop'',
     ustr ''https://images.unsplash.com/photo-1613490493576-7fde63acd811?w=600&h=400&fit=crop'',
     ustr ''https://images.unsplash.com/photo-1564013799919-ab600027ffc6?w=600&h=400&fit=crop'']"

definition carImages :: "jsstring list" where
  "carImages =
    [ustr ''https://images.unsplash.com/photo-1617788138017-80ad40651399?w=600&h=400&fit=crop'',
     ustr ''https://images.unsplash.com/photo-1555215695-3004980ad54e?w=600&h=400&fit=crop'',
     ustr ''https://images.unsplash.com/photo-1503376780353-7e6692767b70?w=600&h=400&fit=crop'',
     ustr ''https://images.unsplash.com/photo-1552519507-da3b142c6e3d?w=600&h=400&fit=crop'',
     ustr ''https://images.unsplash.com/photo-1606664515524-ed2f786a0bd6?w=600&h=400&fit=crop'',
     ustr ''https://images.unsplash.com/photo-1533473359331-0135ef1b58bf?w=600&h=400&fit=crop'']"

text \<open>The em dash of \<open>"\<emdash>"\<close> (U+2014) and the separator \<open>" \<bullet> "\<close> (U+2022).\<close>

definition em_dash :: jsstring where
  "em_dash = [8212]"

definition bullet_sep :: jsstring where
  "bullet_sep = [32, 8226, 32]"

text \<open>\<open>Math.floor(Math.random() * 26) + 70\<close>, for the draw \<open>r\<close> of \<open>Math.random()\<close>.\<close>

definition randomCondition :: "rat \<Rightarrow> int" where
  "randomCondition r = \<lfloor>r * 26\<rfloor> + 70"

text \<open>
  The callback of \<open>rentData.map\<close> (lines 143-163): the record \<open>p\<close> at index \<open>i\<close>, with
  \<open>filters.city\<close> and the draw of \<open>Math.random()\<close>. \<open>None\<close> is a thrown TypeError: a
  property read on a \<open>null\<close> record, \<open>split\<close> called on an address that is no string, or
  a failing string conversion.
\<close>

definition transformProperty ::
  "js_env \<Rightarrow> jsstring \<Rightarrow> rat \<Rightarrow> nat \<Rightarrow> jsval \<Rightarrow> PropertyListing option" where
  "transformProperty E city r i p = do {
     p_id \<leftarrow> get p (ustr ''id'');
     p_addressLine1 \<leftarrow> get p (ustr ''addressLine1'');
     p_propertyType \<leftarrow> get p (ustr ''propertyType'');
     p_city \<leftarrow> get p (ustr ''city'');
     p_state \<leftarrow> get p (ustr ''state'');
     p_price \<leftarrow> get p (ustr ''price'');
     p_bedrooms \<leftarrow> get p (ustr ''bedrooms'');
     p_bathrooms \<leftarrow> get p (ustr ''bathrooms'');
     p_squareFootage \<leftarrow> get p (ustr ''squareFootage'');
     id' \<leftarrow> (if truthy p_id then Some p_id
            else do {
              a \<leftarrow> toStr E (js_or p_addressLine1 (JStr (ustr ''addr'')));
              Some (JStr (decimal i @ ustr ''-'' @ a))
            });
     title' \<leftarrow> (if truthy p_propertyType then do {
                t \<leftarrow> toStr E p_propertyType;
                on \<leftarrow> (if truthy p_addressLine1 then
                         (case p_addressLine1 of
                            JStr a \<Rightarrow> Some (ustr '' on '' @ firstWord a @ ustr '' St'')
                          | _ \<Rightarrow> None)
                       else Some []);
                Some (t @ on)
              }
              else do {
                c \<leftarrow> toStr E p_city;
                Some (ustr ''Property in '' @ c)
              });
     loc_city \<leftarrow> toStr E (js_or p_city (JStr city));
     loc_state \<leftarrow> toStr E (js_or p_state (JStr (ustr ''TX'')));
     price' \<leftarrow> (if truthy p_price then do {
                n \<leftarrow> localeNumber E p_price;
                Some (ustr ''$'' @ n)
              }
              else Some (ustr ''N/A''));
     sqft' \<leftarrow> (if truthy p_squareFootage then do {
               n \<leftarrow> localeNumber E p_squareFootage;
               Some (n @ ustr '' sq ft'')
             }
             else Some (ustr ''N/A''));
     Some \<lparr> listing_id = id',
            title = title',
            price = price',
            image_url = JStr (propertyImages ! (i mod length propertyImages)),
            condition = randomCondition r,
            location = loc_city @ ustr '', '' @ loc_state,
            bedrooms = js_coalesce p_bedrooms (JStr em_dash),
            bathrooms = js_coalesce p_bathrooms (JStr em_dash),
            sqft = sqft' \<rparr>
   }"

text \<open>
  \<open>xs.map((x, i) => f(x, i))\<close> where \<open>f\<close> may throw: the first throw ends the map. The
  \<open>i\<close>-th call draws \<open>rnd i\<close> from \<open>Math.random()\<close>.
\<close>

fun mapIndexed :: "(nat \<Rightarrow> 'a \<Rightarrow> 'b option) \<Rightarrow> nat \<Rightarrow> 'a list \<Rightarrow> 'b list option" where
  "mapIndexed f i [] = Some []"
| "mapIndexed f i (x # xs) =
     (case f i x of
        None \<Rightarrow> None
      | Some y \<Rightarrow> (case mapIndexed f (Suc i) xs of None \<Rightarrow> None | Some ys \<Rightarrow> Some (y # ys)))"

text \<open>\<open>rentData.map(...)\<close>: a TypeError when \<open>rentData\<close> is no array.\<close>

definition transformedProperties ::
  "js_env \<Rightarrow> jsstring \<Rightarrow> (nat \<Rightarrow> rat) \<Rightarrow> jsval \<Rightarrow> PropertyListing list option" where
  "transformedProperties E city rnd rentData =
     (case rentData of
        JArr ps \<Rightarrow> mapIndexed (\<lambda>i p. transformProperty E city (rnd i) i p) 0 ps
      | _ \<Rightarrow> None)"

text \<open>
  The callback of \<open>carData.map\<close> (lines 205-235). When the record or its \<open>build\<close> is a
  string, the read of \<open>trim\<close> gives the function of that name, which is truthy and is
  converted into the details.
\<close>

definition transformCar :: "js_env \<Rightarrow> rat \<Rightarrow> nat \<Rightarrow> jsval \<Rightarrow> CarListing option" where
  "transformCar E r i c = do {
     c_build \<leftarrow> get c (ustr ''build'');
     c_make \<leftarrow> get c (ustr ''make'');
     c_model \<leftarrow> get c (ustr ''model'');
     c_year \<leftarrow> get c (ustr ''year'');
     c_trim \<leftarrow> get c (ustr ''trim'');
     c_price \<leftarrow> get c (ustr ''price'');
     c_miles \<leftarrow> get c (ustr ''miles'');
     c_body_type \<leftarrow> get c (ustr ''body_type'');
     c_transmission \<leftarrow> get c (ustr ''transmission'');
     c_exterior_color \<leftarrow> get c (ustr ''exterior_color'');
     c_color \<leftarrow> get c (ustr ''color'');
     c_media \<leftarrow> get c (ustr ''media'');
     c_id \<leftarrow> get c (ustr ''id'');
     let make' = js_or (js_or (opt_get c_build (ustr ''make'')) c_make) (JStr (ustr ''Unknown''));
     let model = js_or (js_or (opt_get c_build (ustr ''model'')) c_model) (JStr (ustr ''Model''));
     let year' = js_or (js_or (opt_get c_build (ustr ''year'')) c_year) (JStr (ustr ''N/A''));
     let trim' = js_or (js_or (opt_get c_build (ustr ''trim'')) c_trim) (JStr []);
     price' \<leftarrow> (if truthy c_price then do {
                n \<leftarrow> localeNumber E c_price;
                Some (ustr ''$'' @ n)
              }
              else Some []);
     miles \<leftarrow> (if truthy c_miles then do {
               n \<leftarrow> localeNumber E c_miles;
               Some (n @ ustr '' miles'')
             }
             else Some (ustr ''N/A''));
     let bodyType' = js_or (js_or (opt_get c_build (ustr ''body_type'')) c_body_type) (JStr []);
     let transmission =
           js_or (js_or (opt_get c_build (ustr ''transmission'')) c_transmission) (JStr []);
     let color' = js_or (js_or c_exterior_color c_color) (JStr []);
     let image' = js_or (opt_index0 (opt_get c_media (ustr ''photo_links'')))
                        (JStr (carImages ! (i mod length carImages)));
     year_s \<leftarrow> toStr E year';
     make_s \<leftarrow> toStr E make';
     model_s \<leftarrow> toStr E model;
     bodyType_s \<leftarrow> toStr E bodyType';
     transmission_s \<leftarrow> (if truthy transmission then do {
                         t \<leftarrow> toStr E transmission;
                         Some (bullet_sep @ t)
                       }
                       else Some []);
     trim_s \<leftarrow> (if truthy trim' then do {
                 t \<leftarrow> toStr E trim';
                 Some (bullet_sep @ t)
               }
               else Some []);
     Some \<lparr> listing_id = js_or c_id (JStr (ustr ''car-'' @ decimal i)),
            title = year_s @ ustr '' '' @ make_s @ ustr '' '' @ model_s,
            price = price',
            image_url = image',
            condition = randomCondition r,
            details = bodyType_s @ transmission_s @ trim_s,
            mileage = miles,
            year = year_s,
            color = color',
            car_make = make',
            bodyType = bodyType' \<rparr>
   }"

text \<open>\<open>carData.map(...)\<close>: a TypeError when \<open>carData\<close> is no array.\<close>

definition transformedCars ::
  "js_env \<Rightarrow> (nat \<Rightarrow> rat) \<Rightarrow> jsval \<Rightarrow> CarListing list option" where
  "transformedCars E rnd carData =
     (case carData of
        JArr cs \<Rightarrow> mapIndexed (\<lambda>i c. transformCar E (rnd i) i c) 0 cs
      | _ \<Rightarrow> None)"

text \<open>The demo car (lines 238-250), put in front of the transformed cars by \<open>unshift\<close>.\<close>

definition demoCar :: "js_env \<Rightarrow> CarListing" where
  "demoCar E =
     \<lparr> listing_id = JStr (ustr ''demo-volkswagen-2014''),
       title = ustr ''2014 Volkswagen SUV'',
       price = [],
       image_url = JStr (demoCarImg E),
       condition = 82,
       details = ustr ''SUV'' @ bullet_sep @ ustr ''Automatic'' @ bullet_sep @ ustr ''Comfortline Trim'',
       mileage = ustr ''124,000 miles'',
       year = ustr ''2014'',
       color = JStr (ustr ''Black''),
       car_make = JStr (ustr ''Volkswagen''),
       bodyType = JStr (ustr ''SUV'') \<rparr>"

section \<open>The listings page (Listings.tsx)\<close>

text \<open>The two filter objects; every field is the string of its form control.\<close>

record Filters =
  f_city :: jsstring
  f_propertyType :: jsstring
  f_bedrooms :: jsstring
  f_bathrooms :: jsstring
  f_sqftMin :: jsstring
  f_sqftMax :: jsstring

record CarFilters =
  cf_color :: jsstring
  cf_bodyType :: jsstring
  cf_make :: jsstring

text \<open>
  The state of the component \<open>Listings\<close> (lines 70-96), without the selection of the
  detail dialog, which no function below reads.
\<close>

record page_state =
  activeType :: ListingType
  propertyListings :: "PropertyListing list"
  carListings :: "CarListing list"
  query :: jsstring
  loading :: bool
  currentPage :: int
  filters :: Filters
  carFilters :: CarFilters

definition initial_page :: page_state where
  "initial_page =
     \<lparr> activeType = property,
       propertyListings = [],
       carListings = [],
       query = [],
       loading = True,
       currentPage = 1,
       filters = \<lparr> f_city = ustr ''Richardson'',
                   f_propertyType = ustr ''Apartment,Single Family,Condo'',
                   f_bedrooms = [], f_bathrooms = [], f_sqftMin = [], f_sqftMax = [] \<rparr>,
       carFilters = \<lparr> cf_color = [], cf_bodyType = [], cf_make = [] \<rparr> \<rparr>"

subsection \<open>The fetch cycle (lines 99-266)\<close>

text \<open>
  \<open>encodeURIComponent\<close> throws a URIError on a string with a lone surrogate, and on no
  other string.
\<close>

fun well_formed_utf16 :: "jsstring \<Rightarrow> bool" where
  "well_formed_utf16 [] = True"
| "well_formed_utf16 [c] = (\<not> (55296 \<le> c \<and> c \<le> 57343))"
| "well_formed_utf16 (c # d # s) =
     (if 55296 \<le> c \<and> c \<le> 56319 then 56320 \<le> d \<and> d \<le> 57343 \<and> well_formed_utf16 s
      else \<not> (56320 \<le> c \<and> c \<le> 57343) \<and> well_formed_utf16 (d # s))"

text \<open>
  Building \<open>rentcastURL\<close> (lines 109-122) encodes the city and the property type, and
  each of the four other filters when it is not empty.
\<close>

definition rentcastURL_ok :: "Filters \<Rightarrow> bool" where
  "rentcastURL_ok f =
     (well_formed_utf16 (f_city f) \<and> well_formed_utf16 (f_propertyType f) \<and>
      (f_bedrooms f = [] \<or> well_formed_utf16 (f_bedrooms f)) \<and>
      (f_bathrooms f = [] \<or> well_formed_utf16 (f_bathrooms f)) \<and>
      (f_sqftMin f = [] \<or> well_formed_utf16 (f_sqftMin f)) \<and>
      (f_sqftMax f = [] \<or> well_formed_utf16 (f_sqftMax f)))"

text \<open>
  One run of the effect is a cycle: its flag \<open>cancel\<close>, the filters its closure holds, and
  where its callback stands. The callback is suspended at four \<open>await\<close>s; between them it
  runs without interruption.
\<close>

datatype phase = Pending | AwaitRentRes | AwaitRentJson | AwaitCarRes | AwaitCarJson | Done

record cycle =
  cancel :: bool
  phase :: phase
  cyc_filters :: Filters

text \<open>A promise settles: it rejects (the \<open>await\<close> throws) or fulfils with a value.\<close>

datatype 'a settled = Rejected | Fulfilled 'a

text \<open>
  What wakes a cycle: its timer, a \<open>fetch\<close> that settles (with the response's \<open>ok\<close>), a
  \<open>json()\<close> that settles (with the parsed value, and the draws \<open>Math.random()\<close> gives to
  the normalizer that runs next).
\<close>

datatype cycle_event =
    TimerFired
  | FetchSettled "bool settled"
  | JsonSettled "jsval settled" "nat \<Rightarrow> rat"

text \<open>The \<open>finally\<close> block (line 258); \<open>catch\<close> only logs.\<close>

definition finish :: "cycle \<Rightarrow> page_state \<Rightarrow> cycle \<times> page_state" where
  "finish c st = (c\<lparr>phase := Done\<rparr>, if \<not> cancel c then st\<lparr>loading := False\<rparr> else st)"

text \<open>Lines 134-189: from \<open>rentData\<close> to the \<open>await\<close> of the car request.\<close>

definition afterRent ::
  "js_env \<Rightarrow> (nat \<Rightarrow> rat) \<Rightarrow> jsval \<Rightarrow> cycle \<Rightarrow> page_state \<Rightarrow> cycle \<times> page_state" where
  "afterRent E rnd rentData c st =
     (case transformedProperties E (f_city (cyc_filters c)) rnd rentData of
        None \<Rightarrow> finish c st
      | Some props \<Rightarrow>
          (c\<lparr>phase := AwaitCarRes\<rparr>,
           if \<not> cancel c then st\<lparr>propertyListings := props\<rparr> else st))"

text \<open>Lines 196-259: from \<open>carData\<close> to the end of the callback.\<close>

definition afterCar ::
  "js_env \<Rightarrow> (nat \<Rightarrow> rat) \<Rightarrow> jsval \<Rightarrow> cycle \<Rightarrow> page_state \<Rightarrow> cycle \<times> page_state" where
  "afterCar E rnd carData c st =
     (case transformedCars E rnd carData of
        None \<Rightarrow> finish c st
      | Some cars \<Rightarrow>
          finish c (if \<not> cancel c then st\<lparr>carListings := demoCar E # cars\<rparr> else st))"

text \<open>
  The callback of \<open>setTimeout\<close>, one stretch at a time. An event the cycle does not wait
  for changes nothing.
\<close>

fun cycle_on ::
  "js_env \<Rightarrow> phase \<Rightarrow> cycle_event \<Rightarrow> cycle \<Rightarrow> page_state \<Rightarrow> cycle \<times> page_state" where
  "cycle_on E Pending TimerFired c st =
     (if rentcastURL_ok (cyc_filters c)
      then (c\<lparr>phase := AwaitRentRes\<rparr>, st\<lparr>loading := True\<rparr>)
      else finish c (st\<lparr>loading := True\<rparr>))"
| "cycle_on E AwaitRentRes (FetchSettled Rejected) c st = finish c st"
| "cycle_on E AwaitRentRes (FetchSettled (Fulfilled ok)) c st =
     (if ok then (c\<lparr>phase := AwaitRentJson\<rparr>, st)
      else afterRent E (\<lambda>i. 0) (JArr []) c st)"
| "cycle_on E AwaitRentJson (JsonSettled Rejected rnd) c st = finish c st"
| "cycle_on E AwaitRentJson (JsonSettled (Fulfilled rentData) rnd) c st =
     afterRent E rnd rentData c st"
| "cycle_on E AwaitCarRes (FetchSettled Rejected) c st = finish c st"
| "cycle_on E AwaitCarRes (FetchSettled (Fulfilled ok)) c st =
     (if ok then (c\<lparr>phase := AwaitCarJson\<rparr>, st)
      else afterCar E (\<lambda>i. 0) (JArr []) c st)"
| "cycle_on E AwaitCarJson (JsonSettled Rejected rnd) c st = finish c st"
| "cycle_on E AwaitCarJson (JsonSettled (Fulfilled json) rnd) c st =
     (case get json (ustr ''listings'') of
        None \<Rightarrow> finish c st
      | Some ls \<Rightarrow> afterCar E rnd (js_or ls (JArr [])) c st)"
| "cycle_on E ph ev c st = (c, st)"

definition cycle_step :: "js_env \<Rightarrow> cycle_event \<Rightarrow> cycle \<times> page_state \<Rightarrow> cycle \<times> page_state" where
  "cycle_step E ev cs = cycle_on E (phase (fst cs)) ev (fst cs) (snd cs)"

text \<open>
  The cleanup of the effect (lines 262-265): \<open>cancel = true; clearTimeout(timer)\<close>. A
  timer that has not fired never fires.
\<close>

definition cleanup :: "cycle \<Rightarrow> cycle" where
  "cleanup c = c\<lparr>cancel := True, phase := (if phase c = Pending then Done else phase c)\<rparr>"

definition newCycle :: "Filters \<Rightarrow> cycle" where
  "newCycle f = \<lparr> cancel = False, phase = Pending, cyc_filters = f \<rparr>"

subsection \<open>The component and its events\<close>

text \<open>
  The page with every cycle its effect has started, oldest first; the last one belongs to
  the current render.
\<close>

record system =
  page :: page_state
  cycles :: "cycle list"

text \<open>
  A change of \<open>filters\<close> or \<open>carFilters\<close> (always a new object) runs the cleanup of the
  previous run of the fetch effect and starts a new run.
\<close>

definition rerunFetchEffect :: "Filters \<Rightarrow> cycle list \<Rightarrow> cycle list" where
  "rerunFetchEffect f cs =
     (case cs of [] \<Rightarrow> [] | _ \<Rightarrow> butlast cs @ [cleanup (last cs)]) @ [newCycle f]"

text \<open>
  What the user does: the toggle (lines 353, 361), a filter control (\<open>setFilters\<close>,
  \<open>setCarFilters\<close>, with the new object), the search box (\<open>setQuery\<close>), a pagination
  button (\<open>handlePageChange\<close>). The effect of lines 325-327 sets the page to 1 when
  \<open>activeType\<close>, \<open>filters\<close> or \<open>carFilters\<close> has changed.
\<close>

datatype ui_event =
    SetActiveType ListingType
  | SetFilters Filters
  | SetCarFilters CarFilters
  | SetQuery jsstring
  | PageChange int

fun ui_step :: "ui_event \<Rightarrow> system \<Rightarrow> system" where
  "ui_step (SetActiveType t) sys =
     (if t = activeType (page sys) then sys
      else sys\<lparr>page := (page sys)\<lparr>activeType := t, currentPage := 1\<rparr>\<rparr>)"
| "ui_step (SetFilters f) sys =
     sys\<lparr>page := (page sys)\<lparr>filters := f, currentPage := 1\<rparr>,
         cycles := rerunFetchEffect f (cycles sys)\<rparr>"
| "ui_step (SetCarFilters cf) sys =
     sys\<lparr>page := (page sys)\<lparr>carFilters := cf, currentPage := 1\<rparr>,
         cycles := rerunFetchEffect (filters (page sys)) (cycles sys)\<rparr>"
| "ui_step (SetQuery q) sys = sys\<lparr>page := (page sys)\<lparr>query := q\<rparr>\<rparr>"
| "ui_step (PageChange n) sys = sys\<lparr>page := (page sys)\<lparr>currentPage := n\<rparr>\<rparr>"

text \<open>An event of the \<open>i\<close>-th cycle runs that cycle's callback on the page.\<close>

definition cyc_step :: "js_env \<Rightarrow> nat \<Rightarrow> cycle_event \<Rightarrow> system \<Rightarrow> system" where
  "cyc_step E i ev sys =
     (if i < length (cycles sys)
      then (case cycle_step E ev (cycles sys ! i, page sys) of
              (c', st') \<Rightarrow> sys\<lparr>page := st', cycles := (cycles sys)[i := c']\<rparr>)
      else sys)"

text \<open>A run of cycle events, each addressed to a cycle by its index.\<close>

fun run_cycles :: "js_env \<Rightarrow> (nat \<times> cycle_event) list \<Rightarrow> system \<Rightarrow> system" where
  "run_cycles E [] sys = sys"
| "run_cycles E ((i, ev) # tr) sys = run_cycles E tr (cyc_step E i ev sys)"

text \<open>The mounted component: the initial state, and the first run of the fetch effect.\<close>

definition mounted :: system where
  "mounted = \<lparr> page = initial_page, cycles = [newCycle (filters initial_page)] \<rparr>"

subsection \<open>Search and pagination (lines 268-318)\<close>

text \<open>
  \<open>currentListings\<close> holds listings of either type, and the filter reads their fields
  without looking at the type: a field the listing does not have reads \<open>undefined\<close>
  (\<open>None\<close>).
\<close>

datatype any_listing = PropertyL PropertyListing | CarL CarListing

fun l_title :: "any_listing \<Rightarrow> jsstring option" where
  "l_title (PropertyL p) = Some (title p)"
| "l_title (CarL c) = Some (title c)"

fun l_price :: "any_listing \<Rightarrow> jsstring option" where
  "l_price (PropertyL p) = Some (price p)"
| "l_price (CarL c) = Some (price c)"

fun l_location :: "any_listing \<Rightarrow> jsstring option" where
  "l_location (PropertyL p) = Some (location p)"
| "l_location (CarL c) = None"

fun l_sqft :: "any_listing \<Rightarrow> jsstring option" where
  "l_sqft (PropertyL p) = Some (sqft p)"
| "l_sqft (CarL c) = None"

fun l_details :: "any_listing \<Rightarrow> jsstring option" where
  "l_details (PropertyL p) = None"
| "l_details (CarL c) = Some (details c)"

fun l_year :: "any_listing \<Rightarrow> jsstring option" where
  "l_year (PropertyL p) = None"
| "l_year (CarL c) = Some (year c)"

fun l_mileage :: "any_listing \<Rightarrow> jsstring option" where
  "l_mileage (PropertyL p) = None"
| "l_mileage (CarL c) = Some (mileage c)"

text \<open>\<open>String(x || "")\<close> for a field that is a string or \<open>undefined\<close>.\<close>

fun strOrEmpty :: "jsstring option \<Rightarrow> jsstring" where
  "strOrEmpty None = []"
| "strOrEmpty (Some s) = s"

definition currentListings :: "page_state \<Rightarrow> any_listing list" where
  "currentListings st =
     (if activeType st = property then map PropertyL (propertyListings st)
      else map CarL (carListings st))"

text \<open>The callback of \<open>currentListings.filter\<close> (lines 274-310).\<close>

definition matchesQuery :: "js_env \<Rightarrow> ListingType \<Rightarrow> jsstring \<Rightarrow> any_listing \<Rightarrow> bool" where
  "matchesQuery E t q listing =
     (if js_includes (toLowerCase E (strOrEmpty (l_title listing))) q then True
      else if js_includes (toLowerCase E (strOrEmpty (l_price listing))) q then True
      else if t = property then
        (js_includes (toLowerCase E (strOrEmpty (l_location listing))) q \<or>
         js_includes (toLowerCase E (strOrEmpty (l_sqft listing))) q)
      else
        (js_includes (toLowerCase E (strOrEmpty (l_details listing))) q \<or>
         js_includes (toLowerCase E (strOrEmpty (l_year listing))) q \<or>
         js_includes (toLowerCase E (strOrEmpty (l_mileage listing))) q))"

text \<open>
  The body of the memo, as a function of what it depends on: the listings, the query and
  the active type.
\<close>

definition filterListings ::
  "js_env \<Rightarrow> ListingType \<Rightarrow> jsstring \<Rightarrow> any_listing list \<Rightarrow> any_listing list" where
  "filterListings E t qry ls =
     (if trim qry = [] then ls
      else let q = toLowerCase E qry in filter (matchesQuery E t q) ls)"

definition filteredListings :: "js_env \<Rightarrow> page_state \<Rightarrow> any_listing list" where
  "filteredListings E st = filterListings E (activeType st) (query st) (currentListings st)"

text \<open>\<open>Math.ceil(filteredListings.length / ITEMS_PER_PAGE) || 1\<close>.\<close>

definition totalPages :: "js_env \<Rightarrow> page_state \<Rightarrow> nat" where
  "totalPages E st =
     (let n = (length (filteredListings E st) + (ITEMS_PER_PAGE - 1)) div ITEMS_PER_PAGE
      in if n = 0 then 1 else n)"

definition startIndex :: "page_state \<Rightarrow> int" where
  "startIndex st = (currentPage st - 1) * int ITEMS_PER_PAGE"

text \<open>\<open>xs.slice(start, end)\<close>: a negative index counts from the end, and both are clamped.\<close>

definition js_slice :: "'a list \<Rightarrow> int \<Rightarrow> int \<Rightarrow> 'a list" where
  "js_slice xs start end' =
     (let len = int (length xs);
          k = (if start < 0 then max (len + start) 0 else min start len);
          final = (if end' < 0 then max (len + end') 0 else min end' len)
      in take (nat (final - k)) (drop (nat k) xs))"

definition paginatedListings :: "js_env \<Rightarrow> page_state \<Rightarrow> any_listing list" where
  "paginatedListings E st =
     js_slice (filteredListings E st) (startIndex st) (startIndex st + int ITEMS_PER_PAGE)"

section \<open>The chat page (Chat.tsx)\<close>

datatype Role = user | assistant

text \<open>
  \<open>Message\<close>. The content of an assistant's message is whatever value the backend's
  \<open>reply\<close> is, and \<open>listings\<close> is absent (\<open>None\<close>) or what \<open>slice\<close> gave.
\<close>

record Message =
  msg_id :: jsstring
  role :: Role
  listings :: "jsval option"
  content :: jsval

text \<open>
  The state of the component \<open>Chat\<close>, with what it has sent out: the queries it has
  posted to \<open>/api/chat\<close> and the number of toasts it has shown.
\<close>

record chat_state =
  messages :: "Message list"
  input :: jsstring
  isLoading :: bool
  posted :: "jsstring list"
  toasts :: nat

definition initial_chat :: chat_state where
  "initial_chat =
     \<lparr> messages =
         [\<lparr> msg_id = ustr ''1'', role = assistant, listings = None,
            content = JStr (ustr (''Hello! I'' @ [CHR 0x27] @ ''m your VisionScout AI assistant. I'' @ [CHR 0x27] @
              ''m here to help you find the perfect property or car based on your preferences. What are you looking for today?'')) \<rparr>],
       input = [],
       isLoading = False,
       posted = [],
       toasts = 0 \<rparr>"

text \<open>
  The fallback text of line 76, code unit by code unit: between \<open>couldn\<close> and \<open>t\<close> the
  source has the three characters U+00E2, U+20AC, U+2122.
\<close>

definition fallbackText :: jsstring where
  "fallbackText = ustr ''I couldn'' @ [226, 8364, 8482] @ ustr ''t find any matching listings.''"

text \<open>
  \<open>handleSend\<close> up to its first \<open>await\<close> (lines 41-59), at the time \<open>now\<close> of \<open>Date.now()\<close>.
\<close>

definition handleSend :: "nat \<Rightarrow> chat_state \<Rightarrow> chat_state" where
  "handleSend now st =
     (if trim (input st) = [] \<or> isLoading st then st
      else st\<lparr> messages := messages st @
                  [\<lparr> msg_id = decimal now, role = user, listings = None,
                     content = JStr (input st) \<rparr>],
               input := [],
               isLoading := True,
               posted := posted st @ [input st] \<rparr>)"

text \<open>\<open>data.listings.slice(0, 3)\<close>: arrays and strings have \<open>slice\<close>, nothing else has.\<close>

fun slice3 :: "jsval \<Rightarrow> jsval option" where
  "slice3 (JArr xs) = Some (JArr (take 3 xs))"
| "slice3 (JStr s) = Some (JStr (take 3 s))"
| "slice3 v = None"

text \<open>
  Lines 63-79: the message built from the parsed response \<open>data\<close> at the time \<open>now\<close>;
  \<open>None\<close> when building it throws.
\<close>

definition responseMessage :: "js_env \<Rightarrow> nat \<Rightarrow> jsval \<Rightarrow> Message option" where
  "responseMessage E now data = do {
     ls \<leftarrow> get data (ustr ''listings'');
     nonEmpty \<leftarrow> (if truthy ls then do {
                   len \<leftarrow> get ls (ustr ''length'');
                   n \<leftarrow> toNumber E len;
                   Some (num_pos n)
                 }
                 else Some False);
     if nonEmpty then do {
       top \<leftarrow> slice3 ls;
       Some \<lparr> msg_id = decimal (now + 1), role = assistant, listings = Some top,
              content = JStr [] \<rparr>
     }
     else do {
       reply \<leftarrow> get data (ustr ''reply'');
       Some \<lparr> msg_id = decimal (now + 1), role = assistant, listings = None,
              content = js_or reply (JStr fallbackText) \<rparr>
     }
   }"

text \<open>
  The rest of \<open>handleSend\<close> (lines 61-89), when the request has settled: \<open>Rejected\<close> when
  \<open>fetch\<close> or \<open>response.json()\<close> throws, else the parsed response.
\<close>

definition handleSend_settled :: "js_env \<Rightarrow> nat \<Rightarrow> jsval settled \<Rightarrow> chat_state \<Rightarrow> chat_state" where
  "handleSend_settled E now outcome st =
     (case (case outcome of Rejected \<Rightarrow> None | Fulfilled data \<Rightarrow> responseMessage E now data) of
        None \<Rightarrow> st\<lparr>toasts := Suc (toasts st), isLoading := False\<rparr>
      | Some m \<Rightarrow> st\<lparr>messages := messages st @ [m], isLoading := False\<rparr>)"

text \<open>
  The classifier of lines 156-159: the value of
  \<open>item.make || item.bodyType || item.source === "Cars.com"\<close>, and the layout the
  test \<open>!isCar\<close> chooses. \<open>None\<close> when \<open>item\<close> is \<open>null\<close>.
\<close>

definition isCar :: "jsval \<Rightarrow> jsval option" where
  "isCar item = do {
     item_make \<leftarrow> get item (ustr ''make'');
     item_bodyType \<leftarrow> get item (ustr ''bodyType'');
     item_source \<leftarrow> get item (ustr ''source'');
     Some (js_or (js_or item_make item_bodyType) (JBool (item_source = JStr (ustr ''Cars.com''))))
   }"

datatype layout = PropertyLayout | VehicleLayout

definition classify :: "jsval \<Rightarrow> layout option" where
  "classify item = map_option (\<lambda>v. if \<not> truthy v then PropertyLayout else VehicleLayout) (isCar item)"

section \<open>Notions of the specification, and data for the examples\<close>

text \<open>An empty or whitespace-only string.\<close>

definition blank :: "jsstring \<Rightarrow> bool" where
  "blank s = list_all is_ws s"

text \<open>
  The query \<open>q\<close> occurs in \<open>s\<close> as a case-insensitive substring: lower-cased, \<open>s\<close> is some
  text, then the lower-cased query, then some text.
\<close>

definition ci_substring :: "js_env \<Rightarrow> jsstring \<Rightarrow> jsstring \<Rightarrow> bool" where
  "ci_substring E q s = (\<exists>pre post. toLowerCase E s = pre @ toLowerCase E q @ post)"

text \<open>
  The fields a query is looked for in: title and price, with location and sqft for a
  property, with details, year and mileage for a vehicle.
\<close>

fun spec_matches :: "js_env \<Rightarrow> jsstring \<Rightarrow> any_listing \<Rightarrow> bool" where
  "spec_matches E q (PropertyL p) =
     (ci_substring E q (title p) \<or> ci_substring E q (price p) \<or>
      ci_substring E q (location p) \<or> ci_substring E q (sqft p))"
| "spec_matches E q (CarL c) =
     (ci_substring E q (title c) \<or> ci_substring E q (price c) \<or>
      ci_substring E q (details c) \<or> ci_substring E q (year c) \<or>
      ci_substring E q (mileage c))"

text \<open>
  The filter engine as the specification words it: the whole collection for a blank
  query, else the listings that match, in their order.
\<close>

definition spec_filter :: "js_env \<Rightarrow> jsstring \<Rightarrow> any_listing list \<Rightarrow> any_listing list" where
  "spec_filter E q ls = (if blank q then ls else filter (spec_matches E q) ls)"

text \<open>A record exposes a field: the field is among its own properties.\<close>

definition exposes :: "(jsstring \<times> jsval) list \<Rightarrow> jsstring \<Rightarrow> bool" where
  "exposes fs k = (map_of fs k \<noteq> None)"

text \<open>
  Raw upstream records with any subset of their fields missing. A scalar is a value that
  is neither an array nor an object: a string, a number, a boolean, \<open>null\<close>,
  \<open>undefined\<close> (a missing field), or the function a string gives for \<open>trim\<close>. A property
  record is an object whose \<open>addressLine1\<close>, \<open>propertyType\<close>, \<open>city\<close>, \<open>state\<close>,
  \<open>price\<close> and \<open>squareFootage\<close> are scalars, and whose \<open>addressLine1\<close> is a string or
  falsy. A car record is an object whose \<open>make\<close>, \<open>model\<close>, \<open>year\<close>, \<open>trim\<close>,
  \<open>body_type\<close> and \<open>transmission\<close> are scalars, both in the record and in its \<open>build\<close>,
  and whose \<open>price\<close> and \<open>miles\<close> are scalars. Fields the normalizers copy or do not read
  may hold anything.
\<close>

fun scalar :: "jsval \<Rightarrow> bool" where
  "scalar (JArr xs) = False"
| "scalar (JObj fs) = False"
| "scalar v = True"

fun is_object :: "jsval \<Rightarrow> bool" where
  "is_object (JObj fs) = True"
| "is_object v = False"

definition property_record :: "jsval \<Rightarrow> bool" where
  "property_record p =
     (is_object p \<and>
      list_all (\<lambda>k. scalar (opt_get p k))
        [ustr ''addressLine1'', ustr ''propertyType'', ustr ''city'', ustr ''state'',
         ustr ''price'', ustr ''squareFootage''] \<and>
      (case opt_get p (ustr ''addressLine1'') of JStr a \<Rightarrow> True | v \<Rightarrow> \<not> truthy v))"

definition car_record :: "jsval \<Rightarrow> bool" where
  "car_record c =
     (is_object c \<and>
      list_all (\<lambda>k. scalar (opt_get c k) \<and> scalar (opt_get (opt_get c (ustr ''build'')) k))
        [ustr ''make'', ustr ''model'', ustr ''year'', ustr ''trim'', ustr ''body_type'',
         ustr ''transmission''] \<and>
      scalar (opt_get c (ustr ''price'')) \<and> scalar (opt_get c (ustr ''miles'')))"

text \<open>
  A cycle is stale when its cleanup has run: it is cancelled, and its timer has fired or
  has been cleared.
\<close>

definition stale :: "cycle \<Rightarrow> bool" where
  "stale c = (cancel c \<and> phase c \<noteq> Pending)"

text \<open>
  A host for the examples. Its \<open>toLowerCase\<close> is the one of JavaScript on ASCII strings;
  no example converts a number, so the number conversions are never called.
\<close>

definition asciiLower :: "jsstring \<Rightarrow> jsstring" where
  "asciiLower s = map (\<lambda>c. if 65 \<le> c \<and> c \<le> 90 then c + 32 else c) s"

definition example_env :: js_env where
  "example_env =
     \<lparr> numberToString = (\<lambda>n. []),
       stringToNumber = (\<lambda>s. NaN),
       toLocaleString = (\<lambda>n. []),
       toLowerCase = asciiLower,
       trimSource = ustr ''function trim() { [native code] }'',
       demoCarImg = ustr ''/assets/IMG_6728.jpg'' \<rparr>"

text \<open>Two property listings, as the normalizer builds them from records without a price.\<close>

definition exampleProperty :: PropertyListing where
  "exampleProperty =
     \<lparr> listing_id = JStr (ustr ''0-addr''),
       title = ustr ''Condo on Main St'',
       price = ustr ''N/A'',
       image_url = JStr (propertyImages ! 0),
       condition = 70,
       location = ustr ''Richardson, TX'',
       bedrooms = JStr em_dash,
       bathrooms = JStr em_dash,
       sqft = ustr ''N/A'' \<rparr>"

definition exampleProperty2 :: PropertyListing where
  "exampleProperty2 =
     \<lparr> listing_id = JStr (ustr ''1-addr''),
       title = ustr ''Apartment on Oak St'',
       price = ustr ''N/A'',
       image_url = JStr (propertyImages ! 1),
       condition = 70,
       location = ustr ''Richardson, TX'',
       bedrooms = JStr em_dash,
       bathrooms = JStr em_dash,
       sqft = ustr ''N/A'' \<rparr>"

section \<open>Strings\<close>

lemma ustr_eq_iff: "ustr a = ustr b \<longleftrightarrow> a = b"
  by (simp add: ustr_def inj_map_eq_map inj_on_def)

lemma ustr_Nil_iff: "ustr a = [] \<longleftrightarrow> a = []"
  by (simp add: ustr_def)

lemma ustr_append: "ustr a @ ustr b = ustr (a @ b)"
  by (simp add: ustr_def)

lemma decimal_0: "decimal 0 = ustr ''0''"
  by (simp add: decimal.simps ustr_def)

lemma dropWhile_Nil_iff: "dropWhile P s = [] \<longleftrightarrow> (\<forall>c\<in>set s. P c)"
  by (induction s) auto

lemma trim_Nil: "trim [] = []"
  by (simp add: trim_def)

text \<open>\<open>!s.trim()\<close> holds exactly for the blank strings.\<close>

lemma trim_empty_iff: "trim s = [] \<longleftrightarrow> list_all is_ws s"
proof
  assume "trim s = []"
  then have a: "\<forall>c\<in>set (dropWhile is_ws s). is_ws c"
    by (simp add: trim_def dropWhile_Nil_iff)
  have "dropWhile is_ws s = []"
  proof (rule ccontr)
    assume n: "dropWhile is_ws s \<noteq> []"
    then have "\<not> is_ws (hd (dropWhile is_ws s))" by (rule hd_dropWhile)
    moreover have "hd (dropWhile is_ws s) \<in> set (dropWhile is_ws s)" using n by simp
    ultimately show False using a by blast
  qed
  then have "\<forall>c\<in>set s. is_ws c" by (rule iffD1[OF dropWhile_Nil_iff])
  then show "list_all is_ws s" by (simp add: list_all_iff)
next
  assume "list_all is_ws s"
  then have "\<forall>c\<in>set s. is_ws c" by (simp add: list_all_iff)
  then have d: "dropWhile is_ws s = []" by (rule iffD2[OF dropWhile_Nil_iff])
  show "trim s = []" unfolding trim_def d by simp
qed

lemma startsWith_iff: "startsWith s q \<longleftrightarrow> (\<exists>post. s = q @ post)"
  by (induction s q rule: startsWith.induct) auto

text \<open>\<open>s.includes(q)\<close> holds exactly when \<open>q\<close> is a substring of \<open>s\<close>.\<close>

lemma js_includes_iff: "js_includes s q \<longleftrightarrow> (\<exists>pre post. s = pre @ q @ post)"
proof (induction s)
  case Nil
  then show ?case by auto
next
  case (Cons c s)
  show ?case
  proof
    assume "js_includes (c # s) q"
    then consider "startsWith (c # s) q" | "js_includes s q" by auto
    then show "\<exists>pre post. c # s = pre @ q @ post"
    proof cases
      case 1
      then obtain post where "c # s = q @ post" by (auto simp: startsWith_iff)
      then have "c # s = [] @ q @ post" by simp
      then show ?thesis by blast
    next
      case 2
      then obtain pre post where "s = pre @ q @ post" using Cons.IH by blast
      then have "c # s = (c # pre) @ q @ post" by simp
      then show ?thesis by blast
    qed
  next
    assume "\<exists>pre post. c # s = pre @ q @ post"
    then obtain pre post where e: "c # s = pre @ q @ post" by blast
    show "js_includes (c # s) q"
    proof (cases pre)
      case Nil
      then have "startsWith (c # s) q" using e by (auto simp: startsWith_iff)
      then show ?thesis by simp
    next
      case (Cons a pre')
      then have "s = pre' @ q @ post" using e by simp
      then have "js_includes s q" using Cons.IH by blast
      then show ?thesis by simp
    qed
  qed
qed

section \<open>The chat page\<close>

subsection \<open>The classifier\<close>

text \<open>
  C5, as the claim words it, fails: the record \<open>{ make: "" }\<close> exposes a make field, and
  the classifier renders it as a property, since the empty string is falsy.
\<close>

theorem classify_empty_make_is_property:
  "exposes [(ustr ''make'', JStr [])] (ustr ''make'') \<and>
   classify (JObj [(ustr ''make'', JStr [])]) = Some PropertyLayout"
  by (simp add: exposes_def classify_def isCar_def js_or_def ustr_eq_iff)

text \<open>
  C5, amended: a backend record is classified as a vehicle exactly when its \<open>make\<close> is
  truthy, or its \<open>bodyType\<close> is truthy, or its \<open>source\<close> is the string \<open>Cars.com\<close>, and as
  a property otherwise.
\<close>

theorem classify_truthy_fields:
  "classify (JObj fs) =
     Some (if truthy (opt_get (JObj fs) (ustr ''make'')) \<or>
              truthy (opt_get (JObj fs) (ustr ''bodyType'')) \<or>
              opt_get (JObj fs) (ustr ''source'') = JStr (ustr ''Cars.com'')
           then VehicleLayout else PropertyLayout)"
  by (simp add: classify_def isCar_def js_or_def opt_get_def)

text \<open>
  The records of the claim: \<open>{ make: "Toyota" }\<close> is a vehicle, \<open>{ address: "123 Main St" }\<close>
  and \<open>{}\<close> are properties, a record with both \<open>make\<close> and \<open>address\<close> is a vehicle, and so
  is a record whose source is \<open>Cars.com\<close>.
\<close>

theorem classify_truthy_fields_witness:
  "classify (JObj [(ustr ''make'', JStr (ustr ''Toyota''))]) = Some VehicleLayout \<and>
   classify (JObj [(ustr ''address'', JStr (ustr ''123 Main St''))]) = Some PropertyLayout \<and>
   classify (JObj []) = Some PropertyLayout \<and>
   classify (JObj [(ustr ''make'', JStr (ustr ''Toyota'')),
                   (ustr ''address'', JStr (ustr ''123 Main St''))]) = Some VehicleLayout \<and>
   classify (JObj [(ustr ''source'', JStr (ustr ''Cars.com''))]) = Some VehicleLayout"
  using classify_truthy_fields[of "[(ustr ''make'', JStr (ustr ''Toyota''))]"]
        classify_truthy_fields[of "[(ustr ''address'', JStr (ustr ''123 Main St''))]"]
        classify_truthy_fields[of "[]"]
        classify_truthy_fields[of "[(ustr ''make'', JStr (ustr ''Toyota'')),
                                    (ustr ''address'', JStr (ustr ''123 Main St''))]"]
        classify_truthy_fields[of "[(ustr ''source'', JStr (ustr ''Cars.com''))]"]
  by (simp add: opt_get_def ustr_eq_iff ustr_Nil_iff)

subsection \<open>Sending a message\<close>

text \<open>
  C10: \<open>handleSend\<close> on a blank input, or while a send is in flight, changes nothing: no
  message is appended, the input stays, no request is posted, the loading flag stays.
\<close>

theorem handleSend_guard_noop:
  "blank (input st) \<or> isLoading st \<Longrightarrow> handleSend now st = st"
  by (auto simp: handleSend_def blank_def trim_empty_iff)

theorem handleSend_guard_noop_witness:
  "blank (input (initial_chat\<lparr>input := ustr ''   ''\<rparr>)) \<and>
   handleSend 1000 (initial_chat\<lparr>input := ustr ''   ''\<rparr>) = initial_chat\<lparr>input := ustr ''   ''\<rparr> \<and>
   isLoading (initial_chat\<lparr>input := ustr ''hello'', isLoading := True\<rparr>) \<and>
   handleSend 1000 (initial_chat\<lparr>input := ustr ''hello'', isLoading := True\<rparr>) =
     initial_chat\<lparr>input := ustr ''hello'', isLoading := True\<rparr>"
proof -
  have b: "blank (input (initial_chat\<lparr>input := ustr ''   ''\<rparr>))"
    by (simp add: blank_def ustr_def is_ws_def)
  have l: "isLoading (initial_chat\<lparr>input := ustr ''hello'', isLoading := True\<rparr>)" by simp
  from handleSend_guard_noop[of "initial_chat\<lparr>input := ustr ''   ''\<rparr>" 1000]
       handleSend_guard_noop[of "initial_chat\<lparr>input := ustr ''hello'', isLoading := True\<rparr>" 1000]
       b l
  show ?thesis by simp
qed

text \<open>
  C6: when the response holds a non-empty array of \<open>n\<close> listings, the send appends the
  user's message and then exactly one assistant message, with empty content and the
  first three listings, \<open>min(n, 3)\<close> of them.
\<close>

theorem listings_reply_appends_top3:
  assumes "trim (input st) \<noteq> []" and "\<not> isLoading st"
    and "get data (ustr ''listings'') = Some (JArr xs)" and "xs \<noteq> []"
  shows "messages (handleSend_settled E now' (Fulfilled data) (handleSend now st)) =
           messages st @
             [\<lparr> msg_id = decimal now, role = user, listings = None, content = JStr (input st) \<rparr>,
              \<lparr> msg_id = decimal (now' + 1), role = assistant,
                listings = Some (JArr (take 3 xs)), content = JStr [] \<rparr>]
         \<and> length (take 3 xs) = min (length xs) 3"
  using assms
  by (simp add: handleSend_settled_def handleSend_def responseMessage_def min_def)

text \<open>The example of the specification: five listings come back, three are attached.\<close>

theorem listings_reply_appends_top3_witness:
  "messages (handleSend_settled example_env 2000
      (Fulfilled (JObj [(ustr ''listings'',
         JArr [JStr (ustr ''a''), JStr (ustr ''b''), JStr (ustr ''c''), JStr (ustr ''d''),
               JStr (ustr ''e'')])]))
      (handleSend 1000 (initial_chat\<lparr>input := ustr ''Find luxury apartments in downtown areas''\<rparr>))) =
   messages initial_chat @
     [\<lparr> msg_id = decimal 1000, role = user, listings = None,
        content = JStr (ustr ''Find luxury apartments in downtown areas'') \<rparr>,
      \<lparr> msg_id = decimal 2001, role = assistant,
        listings = Some (JArr [JStr (ustr ''a''), JStr (ustr ''b''), JStr (ustr ''c'')]),
        content = JStr [] \<rparr>]"
proof -
  have t: "trim (input (initial_chat\<lparr>input := ustr ''Find luxury apartments in downtown areas''\<rparr>)) \<noteq> []"
    by (simp add: trim_def ustr_def is_ws_def)
  have l: "\<not> isLoading (initial_chat\<lparr>input := ustr ''Find luxury apartments in downtown areas''\<rparr>)"
    by (simp add: initial_chat_def)
  have g: "get (JObj [(ustr ''listings'',
         JArr [JStr (ustr ''a''), JStr (ustr ''b''), JStr (ustr ''c''), JStr (ustr ''d''),
               JStr (ustr ''e'')])])
         (ustr ''listings'') =
       Some (JArr [JStr (ustr ''a''), JStr (ustr ''b''), JStr (ustr ''c''), JStr (ustr ''d''),
                   JStr (ustr ''e'')])"
    by simp
  from listings_reply_appends_top3[OF t l g, of example_env 2000 1000] show ?thesis by simp
qed

text \<open>
  Without listings the send appends one assistant message: the reply when it is truthy,
  else the fallback text of the source.
\<close>

lemma reply_or_fallback:
  assumes "get data (ustr ''listings'') = Some ls"
    and "ls = JUndefined \<or> ls = JNull \<or> ls = JArr []"
    and "get data (ustr ''reply'') = Some r"
  shows "handleSend_settled E now (Fulfilled data) st =
     st\<lparr>messages := messages st @
           [\<lparr> msg_id = decimal (now + 1), role = assistant, listings = None,
              content = (if truthy r then r else JStr fallbackText) \<rparr>],
        isLoading := False\<rparr>"
  using assms
  by (auto simp add: handleSend_settled_def responseMessage_def js_or_def)

text \<open>
  C7: for the response \<open>{}\<close>, with no listings and no reply, one assistant message is
  appended, and its content is the fallback text of the source. That text is not the
  string \<open>I couldn't find any matching listings.\<close> of the claim: where the claim has an
  apostrophe, the source has the three characters U+00E2, U+20AC, U+2122.
\<close>

theorem fallback_text_code_units:
  "messages (handleSend_settled E now (Fulfilled (JObj [])) st) =
     messages st @ [\<lparr> msg_id = decimal (now + 1), role = assistant, listings = None,
                      content = JStr fallbackText \<rparr>]
   \<and> fallbackText \<noteq> ustr (''I couldn'' @ [CHR 0x27] @ ''t find any matching listings.'')"
  by (simp add: handleSend_settled_def responseMessage_def js_or_def fallbackText_def ustr_def)

section \<open>The listings page\<close>

subsection \<open>Search\<close>

lemma matches_property:
  "matchesQuery E property (toLowerCase E q) (PropertyL p) = spec_matches E q (PropertyL p)"
  by (auto simp: matchesQuery_def ci_substring_def js_includes_iff)

lemma matches_car:
  "matchesQuery E car (toLowerCase E q) (CarL c) = spec_matches E q (CarL c)"
  by (auto simp: matchesQuery_def ci_substring_def js_includes_iff)

text \<open>
  C8: the filtered listings of the page are the filter engine of the specification on the
  collection of the active type: the whole collection, in its order, when the query is
  blank; else the listings, in their order, in which the query occurs as a
  case-insensitive substring of title or price, or of location or sqft for a property, or
  of details, year or mileage for a vehicle.
\<close>

theorem filteredListings_refines_spec:
  "filteredListings E st = spec_filter E (query st) (currentListings st)"
proof (cases "activeType st")
  case property
  then show ?thesis
    by (simp add: filteredListings_def filterListings_def spec_filter_def blank_def
        trim_empty_iff currentListings_def filter_map o_def matches_property Let_def)
next
  case car
  then show ?thesis
    by (simp add: filteredListings_def filterListings_def spec_filter_def blank_def
        trim_empty_iff currentListings_def filter_map o_def matches_car Let_def)
qed

text \<open>
  Of two properties, the query \<open>MAIN\<close> keeps the one on Main St, and a query of two spaces
  keeps both.
\<close>

theorem filteredListings_refines_spec_witness:
  "spec_filter example_env (ustr ''MAIN'') [PropertyL exampleProperty, PropertyL exampleProperty2] =
     [PropertyL exampleProperty]
   \<and> spec_filter example_env (ustr ''  '') [PropertyL exampleProperty, PropertyL exampleProperty2] =
     [PropertyL exampleProperty, PropertyL exampleProperty2]"
proof -
  have m: "toLowerCase example_env (ustr ''MAIN'') = ustr ''main''"
    by (simp add: example_env_def asciiLower_def ustr_def)
  have t: "trim (ustr ''MAIN'') \<noteq> []" "trim (ustr ''  '') = []"
    by (simp_all add: trim_def ustr_def is_ws_def)
  have m1: "matchesQuery example_env property (ustr ''main'') (PropertyL exampleProperty)"
    by (simp add: matchesQuery_def example_env_def exampleProperty_def asciiLower_def ustr_def)
  have m2: "\<not> matchesQuery example_env property (ustr ''main'') (PropertyL exampleProperty2)"
    by (simp add: matchesQuery_def example_env_def exampleProperty2_def asciiLower_def ustr_def)
  have a: "filteredListings example_env
             (initial_page\<lparr>propertyListings := [exampleProperty, exampleProperty2],
                           query := ustr ''MAIN''\<rparr>) =
           [PropertyL exampleProperty]"
    by (simp add: filteredListings_def filterListings_def currentListings_def initial_page_def
        t m m1 m2)
  have b: "filteredListings example_env
             (initial_page\<lparr>propertyListings := [exampleProperty, exampleProperty2],
                           query := ustr ''  ''\<rparr>) =
           [PropertyL exampleProperty, PropertyL exampleProperty2]"
    by (simp add: filteredListings_def filterListings_def currentListings_def initial_page_def t)
  have c: "currentListings
             (initial_page\<lparr>propertyListings := [exampleProperty, exampleProperty2], query := q\<rparr>) =
           [PropertyL exampleProperty, PropertyL exampleProperty2]" for q
    by (simp add: currentListings_def initial_page_def)
  from filteredListings_refines_spec[of example_env
         "initial_page\<lparr>propertyListings := [exampleProperty, exampleProperty2],
                       query := ustr ''MAIN''\<rparr>"]
       filteredListings_refines_spec[of example_env
         "initial_page\<lparr>propertyListings := [exampleProperty, exampleProperty2],
                       query := ustr ''  ''\<rparr>"]
  show ?thesis unfolding a b c by simp
qed

text \<open>
  C9: filtering is idempotent: the filter, applied to its own result with the same query
  and the same listing type, gives that result again.
\<close>

theorem filterListings_idempotent:
  "filterListings E t q (filterListings E t q ls) = filterListings E t q ls"
  by (simp add: filterListings_def Let_def)

theorem filterListings_idempotent_witness:
  "filterListings example_env property (ustr ''MAIN'')
     (filterListings example_env property (ustr ''MAIN'')
        [PropertyL exampleProperty, PropertyL exampleProperty2]) =
   filterListings example_env property (ustr ''MAIN'')
     [PropertyL exampleProperty, PropertyL exampleProperty2]"
  using filterListings_idempotent[of example_env property "ustr ''MAIN''"
          "[PropertyL exampleProperty, PropertyL exampleProperty2]"]
  by simp

subsection \<open>The page reset\<close>

text \<open>A change of the listing type or of either filter object sets the page to 1.\<close>

lemma page_reset_on_type_and_filters:
  "t \<noteq> activeType (page sys) \<Longrightarrow> currentPage (page (ui_step (SetActiveType t) sys)) = 1"
  "currentPage (page (ui_step (SetFilters f) sys)) = 1"
  "currentPage (page (ui_step (SetCarFilters cf) sys)) = 1"
  by simp_all

text \<open>A change of the query leaves the page where it is.\<close>

lemma query_change_leaves_page:
  "currentPage (page (ui_step (SetQuery q) sys)) = currentPage (page sys)"
  by simp

lemma asciiLower_zzz: "asciiLower (ustr ''zzz'') = ustr ''zzz''"
  by (simp add: asciiLower_def ustr_def)

lemma example_no_zzz:
  "\<not> matchesQuery example_env property (ustr ''zzz'') (PropertyL exampleProperty)"
  by (simp add: matchesQuery_def example_env_def exampleProperty_def asciiLower_def ustr_def)

lemma trim_zzz: "trim (ustr ''zzz'') \<noteq> []"
  by (simp add: trim_def ustr_def is_ws_def)

text \<open>
  C4 fails for the query. With ten properties the page has two pages; on page 2, which
  shows one listing, the user types \<open>zzz\<close>, which no listing matches. The current page
  stays 2, there is now one page, and the page shown is empty.
\<close>

theorem query_change_keeps_stale_page:
  "totalPages example_env
     (initial_page\<lparr>propertyListings := replicate 10 exampleProperty, currentPage := 2\<rparr>) = 2
   \<and> length (paginatedListings example_env
        (initial_page\<lparr>propertyListings := replicate 10 exampleProperty, currentPage := 2\<rparr>)) = 1
   \<and> currentPage (page (ui_step (SetQuery (ustr ''zzz''))
        \<lparr>page = initial_page\<lparr>propertyListings := replicate 10 exampleProperty, currentPage := 2\<rparr>,
         cycles = []\<rparr>)) = 2
   \<and> totalPages example_env (page (ui_step (SetQuery (ustr ''zzz''))
        \<lparr>page = initial_page\<lparr>propertyListings := replicate 10 exampleProperty, currentPage := 2\<rparr>,
         cycles = []\<rparr>)) = 1
   \<and> paginatedListings example_env (page (ui_step (SetQuery (ustr ''zzz''))
        \<lparr>page = initial_page\<lparr>propertyListings := replicate 10 exampleProperty, currentPage := 2\<rparr>,
         cycles = []\<rparr>)) = []"
proof -
  have q: "toLowerCase example_env (ustr ''zzz'') = ustr ''zzz''"
    by (simp add: example_env_def asciiLower_zzz)
  have a: "activeType initial_page = property" "query initial_page = []"
    by (simp_all add: initial_page_def)
  show ?thesis
    by (simp add: totalPages_def paginatedListings_def filteredListings_def filterListings_def
        currentListings_def startIndex_def js_slice_def ITEMS_PER_PAGE_def a q trim_zzz
        example_no_zzz trim_Nil)
qed

subsection \<open>The normalizers\<close>

lemma toStr_scalar: "scalar v \<Longrightarrow> \<exists>s. toStr E v = Some s"
  by (cases v) auto

lemma toNumber_scalar: "scalar v \<Longrightarrow> \<exists>n. toNumber E v = Some n"
  by (cases v) auto

lemma localeNumber_scalar: "scalar v \<Longrightarrow> \<exists>s. localeNumber E v = Some s"
  using toNumber_scalar[of v E] by (auto simp: localeNumber_def)

lemma scalar_js_or: "scalar a \<Longrightarrow> scalar b \<Longrightarrow> scalar (js_or a b)"
  by (simp add: js_or_def)

lemma get_object: "is_object p \<Longrightarrow> get p k = Some (opt_get p k)"
  by (cases p) (auto simp: opt_get_def)

text \<open>Once one property read succeeds, the record is not \<open>null\<close> and every read succeeds.\<close>

lemma get_total: "get p k0 = Some v0 \<Longrightarrow> get p k = Some (opt_get p k)"
  by (cases p) (auto simp: opt_get_def)

text \<open>On a property record the normalizer does not throw.\<close>

lemma transformProperty_total:
  assumes "property_record p"
  shows "\<exists>l. transformProperty E city r i p = Some l"
proof -
  let ?F = "opt_get p"
  from assms have g: "get p k = Some (?F k)" for k
    by (simp add: property_record_def get_object)
  from assms have s: "scalar (?F (ustr ''addressLine1''))" "scalar (?F (ustr ''propertyType''))"
    "scalar (?F (ustr ''city''))" "scalar (?F (ustr ''state''))"
    "scalar (?F (ustr ''price''))" "scalar (?F (ustr ''squareFootage''))"
    by (simp_all add: property_record_def)
  from assms have addr: "truthy (?F (ustr ''addressLine1'')) \<Longrightarrow> \<exists>a. ?F (ustr ''addressLine1'') = JStr a"
    by (auto simp: property_record_def split: jsval.splits)
  obtain s1 where s1: "toStr E (js_or (?F (ustr ''addressLine1'')) (JStr (ustr ''addr''))) = Some s1"
    using toStr_scalar[OF scalar_js_or[OF s(1)]] by fastforce
  obtain s2 where s2: "toStr E (?F (ustr ''propertyType'')) = Some s2"
    using toStr_scalar[OF s(2)] by blast
  obtain s3 where s3: "toStr E (?F (ustr ''city'')) = Some s3"
    using toStr_scalar[OF s(3)] by blast
  obtain s4 where s4: "toStr E (js_or (?F (ustr ''city'')) (JStr city)) = Some s4"
    using toStr_scalar[OF scalar_js_or[OF s(3)]] by fastforce
  obtain s5 where s5: "toStr E (js_or (?F (ustr ''state'')) (JStr (ustr ''TX''))) = Some s5"
    using toStr_scalar[OF scalar_js_or[OF s(4)]] by fastforce
  obtain n1 where n1: "localeNumber E (?F (ustr ''price'')) = Some n1"
    using localeNumber_scalar[OF s(5)] by blast
  obtain n2 where n2: "localeNumber E (?F (ustr ''squareFootage'')) = Some n2"
    using localeNumber_scalar[OF s(6)] by blast
  show ?thesis
  proof (cases "truthy (?F (ustr ''addressLine1''))")
    case True
    then obtain a where "?F (ustr ''addressLine1'') = JStr a" using addr by blast
    then show ?thesis
      using s1 s2 s3 s4 s5 n1 n2 by (simp add: transformProperty_def g)
  next
    case False
    then show ?thesis
      using s1 s2 s3 s4 s5 n1 n2 by (simp add: transformProperty_def g)
  qed
qed

text \<open>The price of a property listing: \<open>$\<close> and the formatted number, or \<open>N/A\<close>.\<close>

lemma transformProperty_price:
  assumes "transformProperty E city r i p = Some l"
  shows "if truthy (opt_get p (ustr ''price''))
         then \<exists>n. localeNumber E (opt_get p (ustr ''price'')) = Some n \<and> price l = ustr ''$'' @ n
         else price l = ustr ''N/A''"
proof -
  from assms obtain v0 where "get p (ustr ''id'') = Some v0"
    by (auto simp: transformProperty_def bind_eq_Some_conv)
  then have g: "get p k = Some (opt_get p k)" for k by (rule get_total)
  show ?thesis
  proof (cases "truthy (opt_get p (ustr ''price''))")
    case True
    then show ?thesis using assms
      by (clarsimp simp: transformProperty_def g bind_eq_Some_conv)
  next
    case False
    then show ?thesis using assms
      by (clarsimp simp: transformProperty_def g bind_eq_Some_conv)
  qed
qed

text \<open>On a car record the normalizer does not throw.\<close>

lemma transformCar_total:
  assumes "car_record c"
  shows "\<exists>l. transformCar E r i c = Some l"
proof -
  let ?F = "opt_get c"
  let ?B = "opt_get (opt_get c (ustr ''build''))"
  from assms have g: "get c k = Some (?F k)" for k
    by (simp add: car_record_def get_object)
  from assms have sF: "scalar (?F (ustr ''make''))" "scalar (?F (ustr ''model''))"
    "scalar (?F (ustr ''year''))" "scalar (?F (ustr ''trim''))"
    "scalar (?F (ustr ''body_type''))" "scalar (?F (ustr ''transmission''))"
    "scalar (?F (ustr ''price''))" "scalar (?F (ustr ''miles''))"
    by (simp_all add: car_record_def)
  from assms have sB: "scalar (?B (ustr ''make''))" "scalar (?B (ustr ''model''))"
    "scalar (?B (ustr ''year''))" "scalar (?B (ustr ''trim''))"
    "scalar (?B (ustr ''body_type''))" "scalar (?B (ustr ''transmission''))"
    by (simp_all add: car_record_def)
  have d: "scalar (JStr x)" for x by simp
  obtain y where y: "toStr E (js_or (js_or (?B (ustr ''year'')) (?F (ustr ''year'')))
                       (JStr (ustr ''N/A''))) = Some y"
    using toStr_scalar[OF scalar_js_or[OF scalar_js_or[OF sB(3) sF(3)] d]] by blast
  obtain mk where mk: "toStr E (js_or (js_or (?B (ustr ''make'')) (?F (ustr ''make'')))
                         (JStr (ustr ''Unknown''))) = Some mk"
    using toStr_scalar[OF scalar_js_or[OF scalar_js_or[OF sB(1) sF(1)] d]] by blast
  obtain md where md: "toStr E (js_or (js_or (?B (ustr ''model'')) (?F (ustr ''model'')))
                         (JStr (ustr ''Model''))) = Some md"
    using toStr_scalar[OF scalar_js_or[OF scalar_js_or[OF sB(2) sF(2)] d]] by blast
  obtain bt where bt: "toStr E (js_or (js_or (?B (ustr ''body_type'')) (?F (ustr ''body_type'')))
                         (JStr [])) = Some bt"
    using toStr_scalar[OF scalar_js_or[OF scalar_js_or[OF sB(5) sF(5)] d]] by blast
  obtain tr where tr: "toStr E (js_or (js_or (?B (ustr ''transmission'')) (?F (ustr ''transmission'')))
                         (JStr [])) = Some tr"
    using toStr_scalar[OF scalar_js_or[OF scalar_js_or[OF sB(6) sF(6)] d]] by blast
  obtain tm where tm: "toStr E (js_or (js_or (?B (ustr ''trim'')) (?F (ustr ''trim'')))
                         (JStr [])) = Some tm"
    using toStr_scalar[OF scalar_js_or[OF scalar_js_or[OF sB(4) sF(4)] d]] by blast
  obtain n1 where n1: "localeNumber E (?F (ustr ''price'')) = Some n1"
    using localeNumber_scalar[OF sF(7)] by blast
  obtain n2 where n2: "localeNumber E (?F (ustr ''miles'')) = Some n2"
    using localeNumber_scalar[OF sF(8)] by blast
  show ?thesis
    using y mk md bt tr tm n1 n2
    by (simp add: transformCar_def g Let_def)
qed

text \<open>The price of a car listing: \<open>$\<close> and the formatted number, or the empty string.\<close>

lemma transformCar_price:
  assumes "transformCar E r i c = Some l"
  shows "if truthy (opt_get c (ustr ''price''))
         then \<exists>n. localeNumber E (opt_get c (ustr ''price'')) = Some n \<and> price l = ustr ''$'' @ n
         else price l = []"
proof -
  from assms obtain v0 where "get c (ustr ''build'') = Some v0"
    by (auto simp: transformCar_def bind_eq_Some_conv)
  then have g: "get c k = Some (opt_get c k)" for k by (rule get_total)
  show ?thesis
  proof (cases "truthy (opt_get c (ustr ''price''))")
    case True
    then show ?thesis using assms
      by (clarsimp simp: transformCar_def g bind_eq_Some_conv Let_def)
  next
    case False
    then show ?thesis using assms
      by (clarsimp simp: transformCar_def g bind_eq_Some_conv Let_def)
  qed
qed

text \<open>
  C3, as the claim words it, fails: a vehicle record without a price is normalized to a
  listing whose price is the empty string, and the price of the demo vehicle is the empty
  string.
\<close>

theorem vehicle_price_empty:
  "map_option price (transformCar example_env 0 0 (JObj [])) = Some [] \<and>
   price (demoCar example_env) = []"
  by (simp add: transformCar_def js_or_def opt_get_def demoCar_def Let_def)

text \<open>
  The conditions on a property record are needed: on the record
  \<open>{ propertyType: "Condo", addressLine1: 123 }\<close> the normalizer throws, since a number
  has no \<open>split\<close>.
\<close>

lemma transformProperty_throws_on_numeric_address:
  "transformProperty E city r i
     (JObj [(ustr ''propertyType'', JStr (ustr ''Condo'')),
            (ustr ''addressLine1'', JNum (Fin 123))]) = None"
  by (simp add: transformProperty_def js_or_def ustr_eq_iff ustr_Nil_iff)

text \<open>
  A car record whose \<open>build\<close> is a string: the read of \<open>trim\<close> gives a function, and the
  details are the separator and the text of that function.
\<close>

lemma transformCar_details_of_string_build:
  "map_option details (transformCar E r i (JObj [(ustr ''build'', JStr (ustr ''x''))])) =
     Some (bullet_sep @ trimSource E)"
  by (simp add: transformCar_def js_or_def opt_get_def Let_def ustr_eq_iff ustr_Nil_iff)

text \<open>
  C3, amended. Whenever the property normalizer returns a listing for a raw record, the
  listing's price is \<open>$\<close> followed by the formatted number when the record's price is
  truthy, and \<open>N/A\<close> otherwise, and so is never empty; and it returns a listing for every
  property record: every object whose \<open>addressLine1\<close>, \<open>propertyType\<close>, \<open>city\<close>, \<open>state\<close>,
  \<open>price\<close> and \<open>squareFootage\<close> are scalars or missing, and whose \<open>addressLine1\<close> is a
  string or falsy. Whenever the vehicle normalizer returns a listing for a raw record,
  the listing's price is \<open>$\<close> followed by the formatted number when the record's price is
  truthy, and the empty string otherwise; and it returns a listing for every car record:
  every object whose \<open>make\<close>, \<open>model\<close>, \<open>year\<close>, \<open>trim\<close>, \<open>body_type\<close> and
  \<open>transmission\<close>, in the record and in its \<open>build\<close>, and whose \<open>price\<close> and \<open>miles\<close> are
  scalars or missing. The price of the demo vehicle is the empty string.
\<close>

theorem normalizer_price_field:
  "(\<forall>l. transformProperty E city r i p = Some l \<longrightarrow>
        price l \<noteq> [] \<and>
        (if truthy (opt_get p (ustr ''price''))
         then \<exists>n. localeNumber E (opt_get p (ustr ''price'')) = Some n \<and> price l = ustr ''$'' @ n
         else price l = ustr ''N/A''))
   \<and> (property_record p \<longrightarrow> (\<exists>l. transformProperty E city r i p = Some l))
   \<and> (\<forall>l. transformCar E r i c = Some l \<longrightarrow>
        (if truthy (opt_get c (ustr ''price''))
         then \<exists>n. localeNumber E (opt_get c (ustr ''price'')) = Some n \<and> price l = ustr ''$'' @ n
         else price l = []))
   \<and> (car_record c \<longrightarrow> (\<exists>l. transformCar E r i c = Some l))
   \<and> price (demoCar E) = []"
proof (intro conjI allI impI)
  fix l assume l: "transformProperty E city r i p = Some l"
  note pr = transformProperty_price[OF l]
  show "price l \<noteq> []" using pr by (auto simp: ustr_def split: if_splits)
  show "if truthy (opt_get p (ustr ''price''))
        then \<exists>n. localeNumber E (opt_get p (ustr ''price'')) = Some n \<and> price l = ustr ''$'' @ n
        else price l = ustr ''N/A''"
    by (rule pr)
next
  assume "property_record p"
  then show "\<exists>l. transformProperty E city r i p = Some l"
    by (rule transformProperty_total)
next
  fix l assume l: "transformCar E r i c = Some l"
  show "if truthy (opt_get c (ustr ''price''))
        then \<exists>n. localeNumber E (opt_get c (ustr ''price'')) = Some n \<and> price l = ustr ''$'' @ n
        else price l = []"
    by (rule transformCar_price[OF l])
next
  assume "car_record c"
  then show "\<exists>l. transformCar E r i c = Some l"
    by (rule transformCar_total)
next
  show "price (demoCar E) = []" by (simp add: demoCar_def)
qed

text \<open>
  The records with every field missing are a property record and a car record: the
  property's price is \<open>N/A\<close>, the car's is empty.
\<close>

theorem normalizer_price_field_witness:
  "property_record (JObj []) \<and> car_record (JObj []) \<and>
   map_option price (transformProperty example_env (ustr ''Richardson'') 0 0 (JObj [])) =
     Some (ustr ''N/A'') \<and>
   map_option price (transformCar example_env 0 0 (JObj [])) = Some []"
  using normalizer_price_field[where E = example_env and city = "ustr ''Richardson''"
          and r = 0 and i = 0 and p = "JObj []" and c = "JObj []"]
  by (auto simp: property_record_def car_record_def opt_get_def)

subsection \<open>The fetch cycle\<close>

lemma length_propertyImages: "length propertyImages = 6"
  by (simp add: propertyImages_def)

lemma initial_filters_ok: "rentcastURL_ok (filters initial_page)"
  by (simp add: rentcastURL_ok_def initial_page_def ustr_def)

text \<open>A cycle that is over takes no further step.\<close>

lemma cycle_step_Done: "phase c = Done \<Longrightarrow> cycle_step E ev (c, st) = (c, st)"
  by (simp add: cycle_step_def)

lemma fold_cycle_step_Done:
  "phase c = Done \<Longrightarrow> fold (cycle_step E) evs (c, st) = (c, st)"
  by (induction evs) (simp_all add: cycle_step_Done)

text \<open>
  C1, as the claim words it, fails: when the property fetch throws, the cycle is over;
  the vehicle response that comes in afterwards is not applied, and the page is the
  initial page with the loading flag cleared, its vehicle listings still empty.
\<close>

theorem property_fetch_rejection_aborts_cycle:
  "page (run_cycles example_env
      [(0, TimerFired), (0, FetchSettled Rejected), (0, FetchSettled (Fulfilled True)),
       (0, JsonSettled (Fulfilled (JObj [(ustr ''listings'', JArr [JObj []])])) (\<lambda>i. 0))]
      mounted) = initial_page\<lparr>loading := False\<rparr>
   \<and> carListings (initial_page\<lparr>loading := False\<rparr>) = []"
  by (simp add: cyc_step_def cycle_step_def mounted_def newCycle_def finish_def initial_filters_ok)
     (simp add: initial_page_def)

text \<open>
  C1, amended: in a fetch cycle that is not cancelled, a response that is not 2xx
  degrades its source to the empty result and the other source is still applied: after
  a non-2xx property response the property listings are empty and the vehicle listings
  are the demo car and the normalized vehicles; after a non-2xx vehicle response the
  vehicle listings are the demo car alone, next to the normalized properties. A thrown
  network error ends the cycle: when the property fetch throws, neither listings state is
  written, whatever comes in afterwards; when the vehicle fetch throws, the properties
  already applied stay and the vehicle listings are not written. In all four runs the
  loading flag is cleared.
\<close>

theorem fetch_cycle_failure_handling:
  assumes "\<not> cancel c" and "phase c = Pending" and "rentcastURL_ok (cyc_filters c)"
  shows
    "(get json (ustr ''listings'') = Some ls \<and>
      transformedCars E rnd (js_or ls (JArr [])) = Some cars \<longrightarrow>
        fold (cycle_step E)
          [TimerFired, FetchSettled (Fulfilled False), FetchSettled (Fulfilled True),
           JsonSettled (Fulfilled json) rnd] (c, st) =
        (c\<lparr>phase := Done\<rparr>,
         st\<lparr>propertyListings := [], carListings := demoCar E # cars, loading := False\<rparr>))
     \<and> (transformedProperties E (f_city (cyc_filters c)) rnd rentData = Some props \<longrightarrow>
        fold (cycle_step E)
          [TimerFired, FetchSettled (Fulfilled True), JsonSettled (Fulfilled rentData) rnd,
           FetchSettled (Fulfilled False)] (c, st) =
        (c\<lparr>phase := Done\<rparr>,
         st\<lparr>propertyListings := props, carListings := [demoCar E], loading := False\<rparr>))
     \<and> fold (cycle_step E) ([TimerFired, FetchSettled Rejected] @ evs) (c, st) =
        (c\<lparr>phase := Done\<rparr>, st\<lparr>loading := False\<rparr>)
     \<and> (transformedProperties E (f_city (cyc_filters c)) rnd rentData = Some props \<longrightarrow>
        fold (cycle_step E)
          ([TimerFired, FetchSettled (Fulfilled True), JsonSettled (Fulfilled rentData) rnd,
            FetchSettled Rejected] @ evs) (c, st) =
        (c\<lparr>phase := Done\<rparr>, st\<lparr>propertyListings := props, loading := False\<rparr>))"
proof (intro conjI impI)
  assume "get json (ustr ''listings'') = Some ls \<and>
          transformedCars E rnd (js_or ls (JArr [])) = Some cars"
  then show "fold (cycle_step E)
          [TimerFired, FetchSettled (Fulfilled False), FetchSettled (Fulfilled True),
           JsonSettled (Fulfilled json) rnd] (c, st) =
        (c\<lparr>phase := Done\<rparr>,
         st\<lparr>propertyListings := [], carListings := demoCar E # cars, loading := False\<rparr>)"
    using assms
    by (simp add: cycle_step_def afterRent_def afterCar_def finish_def transformedProperties_def)
next
  assume "transformedProperties E (f_city (cyc_filters c)) rnd rentData = Some props"
  then show "fold (cycle_step E)
          [TimerFired, FetchSettled (Fulfilled True), JsonSettled (Fulfilled rentData) rnd,
           FetchSettled (Fulfilled False)] (c, st) =
        (c\<lparr>phase := Done\<rparr>,
         st\<lparr>propertyListings := props, carListings := [demoCar E], loading := False\<rparr>)"
    using assms
    by (simp add: cycle_step_def afterRent_def afterCar_def finish_def transformedCars_def)
next
  show "fold (cycle_step E) ([TimerFired, FetchSettled Rejected] @ evs) (c, st) =
        (c\<lparr>phase := Done\<rparr>, st\<lparr>loading := False\<rparr>)"
    using assms
    by (simp add: cycle_step_def finish_def fold_cycle_step_Done)
next
  assume "transformedProperties E (f_city (cyc_filters c)) rnd rentData = Some props"
  then show "fold (cycle_step E)
          ([TimerFired, FetchSettled (Fulfilled True), JsonSettled (Fulfilled rentData) rnd,
            FetchSettled Rejected] @ evs) (c, st) =
        (c\<lparr>phase := Done\<rparr>, st\<lparr>propertyListings := props, loading := False\<rparr>)"
    using assms
    by (simp add: cycle_step_def afterRent_def finish_def fold_cycle_step_Done)
qed

text \<open>
  The first cycle of the page: with a non-2xx property response and an empty vehicle
  response it ends with no property and the demo car; with a property fetch that throws
  it ends with the initial listings.
\<close>

theorem fetch_cycle_failure_handling_witness:
  "fold (cycle_step example_env)
     [TimerFired, FetchSettled (Fulfilled False), FetchSettled (Fulfilled True),
      JsonSettled (Fulfilled (JObj [(ustr ''listings'', JArr [])])) (\<lambda>i. 0)]
     (newCycle (filters initial_page), initial_page) =
   ((newCycle (filters initial_page))\<lparr>phase := Done\<rparr>,
    initial_page\<lparr>propertyListings := [], carListings := [demoCar example_env], loading := False\<rparr>)
   \<and> fold (cycle_step example_env)
     [TimerFired, FetchSettled Rejected, FetchSettled (Fulfilled True),
      JsonSettled (Fulfilled (JObj [(ustr ''listings'', JArr [])])) (\<lambda>i. 0)]
     (newCycle (filters initial_page), initial_page) =
   ((newCycle (filters initial_page))\<lparr>phase := Done\<rparr>, initial_page\<lparr>loading := False\<rparr>)"
proof -
  have h: "\<not> cancel (newCycle (filters initial_page))"
    "phase (newCycle (filters initial_page)) = Pending"
    "rentcastURL_ok (cyc_filters (newCycle (filters initial_page)))"
    by (simp_all add: newCycle_def initial_filters_ok)
  have j: "get (JObj [(ustr ''listings'', JArr [])]) (ustr ''listings'') = Some (JArr [])"
    by simp
  have t: "transformedCars example_env (\<lambda>i. 0) (js_or (JArr []) (JArr [])) = Some []"
    by (simp add: transformedCars_def js_or_def)
  from fetch_cycle_failure_handling[OF h, of "JObj [(ustr ''listings'', JArr [])]" "JArr []"
      example_env "\<lambda>i. 0" "[]" initial_page "JArr []" "[]"
      "[FetchSettled (Fulfilled True),
        JsonSettled (Fulfilled (JObj [(ustr ''listings'', JArr [])])) (\<lambda>i. 0)]"]
    j t
  show ?thesis by simp
qed

subsection \<open>Stale cycles\<close>

lemma cycle_on_stale:
  "cancel c \<Longrightarrow> phase c = ph \<Longrightarrow> ph \<noteq> Pending \<Longrightarrow>
   snd (cycle_on E ph ev c st) = st \<and> cancel (fst (cycle_on E ph ev c st)) \<and>
   phase (fst (cycle_on E ph ev c st)) \<noteq> Pending"
  by (induction E ph ev c st rule: cycle_on.induct)
     (auto simp: finish_def afterRent_def afterCar_def split: option.splits)

text \<open>A step of a stale cycle writes nothing on the page, and the cycle stays stale.\<close>

lemma cycle_step_stale:
  assumes "stale c"
  shows "snd (cycle_step E ev (c, st)) = st \<and> stale (fst (cycle_step E ev (c, st)))"
  using assms cycle_on_stale[of c "phase c" E ev st]
  by (simp add: stale_def cycle_step_def)

lemma cleanup_stale: "stale (cleanup c)"
  by (simp add: stale_def cleanup_def)

lemma length_cyc_step: "length (cycles (cyc_step E i ev s)) = length (cycles s)"
  by (simp add: cyc_step_def split: prod.splits)

lemma cyc_step_other:
  assumes "i \<noteq> b" and "\<forall>j<length (cycles s). j \<noteq> b \<longrightarrow> stale (cycles s ! j)"
  shows "page (cyc_step E i ev s) = page s"
    and "b < length (cycles s) \<longrightarrow> cycles (cyc_step E i ev s) ! b = cycles s ! b"
    and "\<forall>j<length (cycles s). j \<noteq> b \<longrightarrow> stale (cycles (cyc_step E i ev s) ! j)"
proof -
  have "page (cyc_step E i ev s) = page s \<and>
        (b < length (cycles s) \<longrightarrow> cycles (cyc_step E i ev s) ! b = cycles s ! b) \<and>
        (\<forall>j<length (cycles s). j \<noteq> b \<longrightarrow> stale (cycles (cyc_step E i ev s) ! j))"
  proof (cases "i < length (cycles s)")
    case False
    then show ?thesis using assms by (simp add: cyc_step_def)
  next
    case True
    then have st: "stale (cycles s ! i)" using assms by blast
    obtain c' st' where r: "cycle_step E ev (cycles s ! i, page s) = (c', st')"
      by (cases "cycle_step E ev (cycles s ! i, page s)")
    with cycle_step_stale[OF st, of E ev "page s"] have "st' = page s" "stale c'" by simp_all
    then show ?thesis using True r assms
      by (auto simp: cyc_step_def nth_list_update)
  qed
  then show "page (cyc_step E i ev s) = page s"
    and "b < length (cycles s) \<longrightarrow> cycles (cyc_step E i ev s) ! b = cycles s ! b"
    and "\<forall>j<length (cycles s). j \<noteq> b \<longrightarrow> stale (cycles (cyc_step E i ev s) ! j)"
    by blast+
qed

lemma cyc_step_same:
  assumes "page s1 = page s2" and "length (cycles s1) = length (cycles s2)"
    and "b < length (cycles s1) \<longrightarrow> cycles s1 ! b = cycles s2 ! b"
    and "\<forall>j<length (cycles s1). j \<noteq> b \<longrightarrow> stale (cycles s1 ! j)"
  shows "page (cyc_step E b ev s1) = page (cyc_step E b ev s2)"
    and "b < length (cycles s1) \<longrightarrow>
         cycles (cyc_step E b ev s1) ! b = cycles (cyc_step E b ev s2) ! b"
    and "\<forall>j<length (cycles s1). j \<noteq> b \<longrightarrow> stale (cycles (cyc_step E b ev s1) ! j)"
  using assms
  by (auto simp: cyc_step_def split: prod.splits)

text \<open>
  When every cycle but the one at \<open>b\<close> is stale, the events of the other cycles can be
  struck from a run without a change to the page it ends with.
\<close>

lemma run_erasure:
  assumes "page s1 = page s2" and "length (cycles s1) = length (cycles s2)"
    and "b < length (cycles s1) \<longrightarrow> cycles s1 ! b = cycles s2 ! b"
    and "\<forall>j<length (cycles s1). j \<noteq> b \<longrightarrow> stale (cycles s1 ! j)"
  shows "page (run_cycles E tr s1) = page (run_cycles E (filter (\<lambda>e. fst e = b) tr) s2)"
  using assms
proof (induction tr arbitrary: s1 s2)
  case Nil
  then show ?case by simp
next
  case (Cons e tr)
  obtain i ev where e: "e = (i, ev)" by (cases e)
  show ?case
  proof (cases "i = b")
    case True
    have "page (run_cycles E tr (cyc_step E b ev s1)) =
          page (run_cycles E (filter (\<lambda>e. fst e = b) tr) (cyc_step E b ev s2))"
    proof (rule Cons.IH)
      show "page (cyc_step E b ev s1) = page (cyc_step E b ev s2)"
        by (rule cyc_step_same(1)[OF Cons.prems])
      show "length (cycles (cyc_step E b ev s1)) = length (cycles (cyc_step E b ev s2))"
        using Cons.prems(2) by (simp add: length_cyc_step)
      show "b < length (cycles (cyc_step E b ev s1)) \<longrightarrow>
            cycles (cyc_step E b ev s1) ! b = cycles (cyc_step E b ev s2) ! b"
        using cyc_step_same(2)[OF Cons.prems] by (simp add: length_cyc_step)
      show "\<forall>j<length (cycles (cyc_step E b ev s1)). j \<noteq> b \<longrightarrow>
              stale (cycles (cyc_step E b ev s1) ! j)"
        using cyc_step_same(3)[OF Cons.prems] by (simp add: length_cyc_step)
    qed
    then show ?thesis using True e by simp
  next
    case False
    note o = cyc_step_other[OF False Cons.prems(4), of E ev]
    have "page (run_cycles E tr (cyc_step E i ev s1)) =
          page (run_cycles E (filter (\<lambda>e. fst e = b) tr) s2)"
    proof (rule Cons.IH)
      show "page (cyc_step E i ev s1) = page s2" using o(1) Cons.prems(1) by simp
      show "length (cycles (cyc_step E i ev s1)) = length (cycles s2)"
        using Cons.prems(2) by (simp add: length_cyc_step)
      show "b < length (cycles (cyc_step E i ev s1)) \<longrightarrow>
            cycles (cyc_step E i ev s1) ! b = cycles s2 ! b"
        using o(2) Cons.prems(3) by (simp add: length_cyc_step)
      show "\<forall>j<length (cycles (cyc_step E i ev s1)). j \<noteq> b \<longrightarrow>
              stale (cycles (cyc_step E i ev s1) ! j)"
        using o(3) by (simp add: length_cyc_step)
    qed
    then show ?thesis using False e by simp
  qed
qed

lemma length_rerun: "length (rerunFetchEffect f cs) = Suc (length cs)"
  by (cases cs) (simp_all add: rerunFetchEffect_def)

lemma butlast_rerun:
  "butlast (rerunFetchEffect f cs) = (if cs = [] then [] else butlast cs @ [cleanup (last cs)])"
  by (cases cs) (simp_all add: rerunFetchEffect_def butlast_append)

lemma rerun_all_but_last_stale:
  assumes "list_all stale (butlast cs)"
  shows "\<forall>j<length (rerunFetchEffect f cs). j \<noteq> length cs \<longrightarrow>
           stale (rerunFetchEffect f cs ! j)"
proof (intro allI impI)
  fix j assume "j < length (rerunFetchEffect f cs)" and "j \<noteq> length cs"
  then have j: "j < length (butlast (rerunFetchEffect f cs))" by (simp add: length_rerun)
  have "list_all stale (butlast (rerunFetchEffect f cs))"
    using assms by (simp add: butlast_rerun cleanup_stale)
  then have "stale (butlast (rerunFetchEffect f cs) ! j)" using j by (simp add: list_all_length)
  then show "stale (rerunFetchEffect f cs ! j)" using j by (simp add: nth_butlast)
qed

text \<open>
  Every cycle but the current one is stale: this holds when the component is mounted, and
  the user's events and the cycles' steps keep it.
\<close>

lemma mounted_others_stale: "list_all stale (butlast (cycles mounted))"
  by (simp add: mounted_def)

lemma ui_step_others_stale:
  assumes "list_all stale (butlast (cycles sys))"
  shows "list_all stale (butlast (cycles (ui_step ev sys)))"
  using assms by (cases ev) (simp_all add: butlast_rerun cleanup_stale)

lemma cyc_step_others_stale:
  assumes "list_all stale (butlast (cycles sys))"
  shows "list_all stale (butlast (cycles (cyc_step E i ev sys)))"
proof (cases "i < length (cycles sys)")
  case False
  then show ?thesis using assms by (simp add: cyc_step_def)
next
  case True
  obtain c' st' where r: "cycle_step E ev (cycles sys ! i, page sys) = (c', st')"
    by (cases "cycle_step E ev (cycles sys ! i, page sys)")
  have c: "cycles (cyc_step E i ev sys) = (cycles sys)[i := c']"
    using True r by (simp add: cyc_step_def)
  show ?thesis
  proof (cases "i = length (cycles sys) - 1")
    case True
    then have "butlast ((cycles sys)[i := c']) = butlast (cycles sys)"
      by (simp add: butlast_list_update)
    then show ?thesis using assms unfolding c by simp
  next
    case False
    with True have i: "i < length (butlast (cycles sys))" by simp
    then have "stale (cycles sys ! i)"
      using assms by (simp add: list_all_length nth_butlast)
    then have "stale c'" using cycle_step_stale[of "cycles sys ! i" E ev "page sys"] r by simp
    moreover have "butlast ((cycles sys)[i := c']) = (butlast (cycles sys))[i := c']"
      using False by (simp add: butlast_list_update)
    moreover have "set ((butlast (cycles sys))[i := c']) \<subseteq> insert c' (set (butlast (cycles sys)))"
      by (rule set_update_subset_insert)
    ultimately show ?thesis using assms unfolding c
      by (auto simp: list_all_iff)
  qed
qed

text \<open>
  C2: a stale fetch cycle never writes the page. Let the current cycle A be in any phase,
  every older cycle being stale, and let a change of a filter object start the cycle B
  (the cleanup sets the cancel flag of A). Then, for every run of events of the cycles,
  in any interleaving, the page at the end (listings and loading flag) is the page that
  the events of B alone lead to: what A resolves to, whenever it resolves, is discarded.
\<close>

theorem stale_cycle_never_writes:
  assumes "list_all stale (butlast (cycles sys))"
    and "ev = SetFilters f \<or> ev = SetCarFilters cf"
  shows "page (run_cycles E tr (ui_step ev sys)) =
         page (run_cycles E (filter (\<lambda>e. fst e = length (cycles sys)) tr) (ui_step ev sys))"
proof -
  obtain f' where c: "cycles (ui_step ev sys) = rerunFetchEffect f' (cycles sys)"
    using assms(2) by auto
  show ?thesis
    by (rule run_erasure) (simp_all add: c rerun_all_but_last_stale[OF assms(1)])
qed

text \<open>
  The regression of the specification. Cycle A (index 0) has started; the city filter
  changes to Plano and starts cycle B (index 1). B's property response is applied, then
  A's property response arrives with one record, then B's vehicle response is applied,
  then A's vehicle response arrives. The page at the end holds B's property and B's
  vehicles only.
\<close>

theorem stale_cycle_never_writes_witness:
  "list_all stale (butlast (cycles
      \<lparr>page = initial_page\<lparr>loading := True\<rparr>,
       cycles = [(newCycle (filters initial_page))\<lparr>phase := AwaitRentRes\<rparr>]\<rparr>))
   \<and> page (run_cycles example_env
        [(1, TimerFired),
         (0, FetchSettled (Fulfilled True)),
         (1, FetchSettled (Fulfilled True)),
         (1, JsonSettled
               (Fulfilled (JArr [JObj [(ustr ''propertyType'', JStr (ustr ''Condo''))]]))
               (\<lambda>i. 0)),
         (0, JsonSettled (Fulfilled (JArr [JObj []])) (\<lambda>i. 0)),
         (1, FetchSettled (Fulfilled False)),
         (0, FetchSettled (Fulfilled False))]
        (ui_step (SetFilters ((filters initial_page)\<lparr>f_city := ustr ''Plano''\<rparr>))
           \<lparr>page = initial_page\<lparr>loading := True\<rparr>,
            cycles = [(newCycle (filters initial_page))\<lparr>phase := AwaitRentRes\<rparr>]\<rparr>)) =
     initial_page
       \<lparr>filters := (filters initial_page)\<lparr>f_city := ustr ''Plano''\<rparr>,
        propertyListings :=
          [\<lparr> listing_id = JStr (ustr ''0-addr''), title = ustr ''Condo'', price = ustr ''N/A'',
              image_url = JStr (propertyImages ! 0), condition = 70,
              location = ustr ''Plano, TX'', bedrooms = JStr em_dash, bathrooms = JStr em_dash,
              sqft = ustr ''N/A'' \<rparr>],
        carListings := [demoCar example_env],
        loading := False\<rparr>"
proof -
  let ?f = "(filters initial_page)\<lparr>f_city := ustr ''Plano''\<rparr>"
  let ?sys = "\<lparr>page = initial_page\<lparr>loading := True\<rparr>,
       cycles = [(newCycle (filters initial_page))\<lparr>phase := AwaitRentRes\<rparr>]\<rparr>"
  let ?tr = "[(1, TimerFired),
         (0, FetchSettled (Fulfilled True)),
         (1, FetchSettled (Fulfilled True)),
         (1, JsonSettled
               (Fulfilled (JArr [JObj [(ustr ''propertyType'', JStr (ustr ''Condo''))]]))
               (\<lambda>i. 0)),
         (0, JsonSettled (Fulfilled (JArr [JObj []])) (\<lambda>i. 0)),
         (1, FetchSettled (Fulfilled False)),
         (0, FetchSettled (Fulfilled False))]"
  have h: "list_all stale (butlast (cycles ?sys))" by simp
  have u: "rentcastURL_ok ?f"
    by (simp add: rentcastURL_ok_def initial_page_def ustr_def)
  have t: "transformProperty example_env (ustr ''Plano'') 0 0
             (JObj [(ustr ''propertyType'', JStr (ustr ''Condo''))]) =
           Some \<lparr> listing_id = JStr (ustr ''0-addr''), title = ustr ''Condo'', price = ustr ''N/A'',
              image_url = JStr (propertyImages ! 0), condition = 70,
              location = ustr ''Plano, TX'', bedrooms = JStr em_dash, bathrooms = JStr em_dash,
              sqft = ustr ''N/A'' \<rparr>"
    by (simp add: transformProperty_def js_or_def js_coalesce_def nullish_def decimal_0
        length_propertyImages randomCondition_def ustr_eq_iff ustr_Nil_iff ustr_append)
  have e: "page (run_cycles example_env (filter (\<lambda>e. fst e = length (cycles ?sys)) ?tr)
             (ui_step (SetFilters ?f) ?sys)) =
           initial_page
       \<lparr>filters := ?f,
        propertyListings :=
          [\<lparr> listing_id = JStr (ustr ''0-addr''), title = ustr ''Condo'', price = ustr ''N/A'',
              image_url = JStr (propertyImages ! 0), condition = 70,
              location = ustr ''Plano, TX'', bedrooms = JStr em_dash, bathrooms = JStr em_dash,
              sqft = ustr ''N/A'' \<rparr>],
        carListings := [demoCar example_env],
        loading := False\<rparr>"
    by (simp add: rerunFetchEffect_def cyc_step_def cycle_step_def newCycle_def u cleanup_def
        afterRent_def afterCar_def finish_def transformedProperties_def transformedCars_def t)
       (simp add: initial_page_def)
  from stale_cycle_never_writes[OF h, of "SetFilters ?f" ?f "carFilters initial_page" example_env ?tr] e h
  show ?thesis by simp
qed

end
